theory Spec2Isabelle
  imports
    Complex_Main
    "HOL-Library.AList"
    "HOL-Library.Char_ord"
    "HOL-Library.List_Lexorder"
    "HOL-Library.Product_Lexorder"
begin

section \<open>Values, objects and queries\<close>

text \<open>
  The framework is generic over a Mongoose document type. A document, an input object and
  an update object are JavaScript objects: association lists from field names to values,
  where a missing key reads as \<open>undefined\<close> (\<open>None\<close>). A value is null, a boolean, a
  number (an integer; the safe integers, below \<open>2^53\<close> in absolute value, stand for themselves), a string, a
  date (milliseconds since the epoch), an object id (\<open>VId n\<close>, the id whose twelve bytes
  make the number \<open>n\<close>) or an embedded object, such as the \<open>{code: 7}\<close> of the update
  \<open>{$set: {code: 7}}\<close>.
\<close>

datatype val = VNull | VBool bool | VNum int | VStr string | VDate nat | VId nat
  | VObj "(string \<times> val) list"

type_synonym doc = "(string \<times> val) list"

definition get :: "doc \<Rightarrow> string \<Rightarrow> val option" where
  "get d k = map_of d k"

definition has_key :: "string \<Rightarrow> doc \<Rightarrow> bool" where
  "has_key k d = (k \<in> fst ` set d)"

text \<open>JavaScript truthiness, as \<open>!x\<close> and \<open>x && ...\<close> test it.\<close>

fun truthy :: "val option \<Rightarrow> bool" where
  "truthy None = False"
| "truthy (Some VNull) = False"
| "truthy (Some (VBool b)) = b"
| "truthy (Some (VNum n)) = (n \<noteq> 0)"
| "truthy (Some (VStr s)) = (s \<noteq> [])"
| "truthy (Some (VDate t)) = True"
| "truthy (Some (VId i)) = True"
| "truthy (Some (VObj x)) = True"

text \<open>The object spread \<open>{ ...a, ...b }\<close>: the keys of \<open>b\<close> override those of \<open>a\<close>.\<close>

definition spread :: "(string \<times> 'v) list \<Rightarrow> (string \<times> 'v) list \<Rightarrow> (string \<times> 'v) list" where
  "spread a b = fold (\<lambda>(k, v). AList.update k v) b a"

text \<open>
  \<open>String(x)\<close>, as the template strings apply it: a number is printed in decimal digits,
  an object id as its 24 hexadecimal digits, an embedded object as \<open>[object Object]\<close>. The
  text of a date depends on the time zone of the host: the host's rendering, \<open>date_text\<close>,
  is a parameter.
\<close>

definition digit_char :: "nat \<Rightarrow> char" where
  "digit_char n = ''0123456789'' ! (n mod 10)"

function string_of_nat :: "nat \<Rightarrow> string" where
  "string_of_nat n = (if n < 10 then [digit_char n] else string_of_nat (n div 10) @ [digit_char (n mod 10)])"
  by pat_completeness auto
termination
  by (relation "measure (\<lambda>n. n)") auto

declare string_of_nat.simps [simp del]

definition string_of_int :: "int \<Rightarrow> string" where
  "string_of_int i = (if i < 0 then CHR ''-'' # string_of_nat (nat (- i)) else string_of_nat (nat i))"

definition hex_digit :: "nat \<Rightarrow> char" where
  "hex_digit n = ''0123456789abcdef'' ! (n mod 16)"

definition hex_of_id :: "nat \<Rightarrow> string" where
  "hex_of_id i = map (\<lambda>k. hex_digit (i div 16 ^ k)) (rev [0..<24])"

fun String :: "(nat \<Rightarrow> string) \<Rightarrow> val option \<Rightarrow> string" where
  "String date_text None = ''undefined''"
| "String date_text (Some VNull) = ''null''"
| "String date_text (Some (VBool b)) = (if b then ''true'' else ''false'')"
| "String date_text (Some (VNum n)) = string_of_int n"
| "String date_text (Some (VStr s)) = s"
| "String date_text (Some (VDate t)) = date_text t"
| "String date_text (Some (VId i)) = hex_of_id i"
| "String date_text (Some (VObj x)) = ''[object Object]''"

definition quoted :: "string \<Rightarrow> string" where
  "quoted s = [CHR 0x27] @ s @ [CHR 0x27]"

subsection \<open>Filter queries\<close>

text \<open>
  The part of the filter language the repository and the service build: equality with a
  value, \<open>{ $ne: v }\<close>, \<open>{ $regex: r }\<close> for an escaped search term (a substring test,
  case-insensitive or not), and the \<open>$or\<close> of single-field conditions the search produces.
  A comparison with \<open>null\<close> also matches a missing field, as the engine has it.
\<close>

datatype fcond = Eq val | Ne val | Regex string bool

datatype cond = Is fcond | AnyOf "(string \<times> fcond) list"

type_synonym query = "(string \<times> cond) list"

definition to_lower :: "char \<Rightarrow> char" where
  "to_lower c =
     (if CHR ''A'' \<le> c \<and> c \<le> CHR ''Z''
      then (case c of Char b0 b1 b2 b3 b4 b5 b6 b7 \<Rightarrow> Char b0 b1 b2 b3 b4 True b6 b7)
      else c)"

fun is_prefix :: "string \<Rightarrow> string \<Rightarrow> bool" where
  "is_prefix [] s = True"
| "is_prefix (p # ps) [] = False"
| "is_prefix (p # ps) (c # cs) = (p = c \<and> is_prefix ps cs)"

fun contains :: "string \<Rightarrow> string \<Rightarrow> bool" where
  "contains p [] = (p = [])"
| "contains p (c # cs) = (is_prefix p (c # cs) \<or> contains p cs)"

fun holds :: "fcond \<Rightarrow> val option \<Rightarrow> bool" where
  "holds (Eq v) x = (if v = VNull then x = None \<or> x = Some VNull else x = Some v)"
| "holds (Ne v) x = (if v = VNull then x \<noteq> None \<and> x \<noteq> Some VNull else x \<noteq> Some v)"
| "holds (Regex p ci) x =
     (case x of
        Some (VStr s) \<Rightarrow> if ci then contains (map to_lower p) (map to_lower s) else contains p s
      | _ \<Rightarrow> False)"

fun sat :: "doc \<Rightarrow> string \<times> cond \<Rightarrow> bool" where
  "sat d (k, Is c) = holds c (get d k)"
| "sat d (k, AnyOf alts) = list_ex (\<lambda>(f, c). holds c (get d f)) alts"

definition matches :: "query \<Rightarrow> doc \<Rightarrow> bool" where
  "matches q d = list_all (sat d) q"

subsection \<open>Updates and query options\<close>

text \<open>
  An update as the engine applies it: the fields to set and the fields to unset.
\<close>

record update_query =
  upd_set :: "(string \<times> val) list"
  upd_unset :: "string list"

definition apply_update :: "update_query \<Rightarrow> doc \<Rightarrow> doc" where
  "apply_update u d = spread (fold AList.delete (upd_unset u) d) (upd_set u)"

record find_options =
  opt_sort :: "(string \<times> int) list"
  opt_skip :: "int option"
  opt_limit :: "int option"

definition no_options :: find_options where
  "no_options = \<lparr>opt_sort = [], opt_skip = None, opt_limit = None\<rparr>"

section \<open>The persistence engine\<close>

text \<open>
  The Mongoose model is the external collaborator of the repository. It is modelled as an
  in-memory collection with the engine's documented behaviour: \<open>find\<close> filters, sorts,
  skips and limits (a negative skip is refused, limit 0 means no limit, a negative limit
  counts as its absolute value); an update changes the first match; \<open>updateMany\<close> and
  \<open>deleteMany\<close> report how many documents they changed. Every call is recorded in a log,
  takes \<open>latency\<close> milliseconds of the clock, and fails with the storage error \<open>fault\<close>
  when one is set. An insert is refused when the \<open>_id\<close> is taken, and when the schema or
  an index of the collection has something against the record (a validation error, a value
  repeated under a unique index): that verdict, \<open>refuses\<close>, belongs to the collection.
  Updates are taken as the schema and the indexes accept them.

  What a \<open>throw\<close> or a rejected promise carries is an \<open>ErrorResponse\<close>, another object
  with a message (an \<open>Error\<close>), or \<open>null\<close> or \<open>undefined\<close>.

  The world also holds what the host decides: which of several pending answers arrives
  first (\<open>race\<close>: for \<open>n\<close> failures, the position of the one that is first in
  time), and how a date is printed (\<open>date_text\<close>).
\<close>

datatype error_response = ErrorResponse (code: string) (message: string) (suggestions: "string list")

datatype thrown = Thrown error_response | JsError string | ThrownNull | ThrownUndefined

datatype op =
    OpSave doc
  | OpInsertMany "doc list" bool
  | OpFind query find_options
  | OpFindOne query
  | OpFindOneAndUpdate query update_query
  | OpUpdateMany query update_query
  | OpFindOneAndDelete query
  | OpDeleteMany query
  | OpCountDocuments query find_options
  | OpExists query
  | OpPopulate "string list"

record world =
  docs :: "doc list"
  fault :: "string option"
  oplog :: "op list"
  clock :: nat
  latency :: nat
  refuses :: "doc list \<Rightarrow> doc \<Rightarrow> string option"
  race :: "nat \<Rightarrow> nat"
  date_text :: "nat \<Rightarrow> string"

type_synonym 'a io = "world \<Rightarrow> (thrown + 'a) \<times> world"

definition issue :: "op \<Rightarrow> world \<Rightarrow> world" where
  "issue e w = w\<lparr>oplog := oplog w @ [e], clock := clock w + latency w\<rparr>"

definition engine :: "op \<Rightarrow> (doc list \<Rightarrow> (thrown + 'a) \<times> doc list) \<Rightarrow> 'a io" where
  "engine e f w =
     (case fault w of
        Some m \<Rightarrow> (Inl (JsError m), issue e w)
      | None \<Rightarrow> (case f (docs w) of (r, ds) \<Rightarrow> (r, (issue e w)\<lparr>docs := ds\<rparr>)))"

text \<open>Sorting: by the engine's type order, then by value; stable, last key first.\<close>

fun sort_rank :: "val option \<Rightarrow> nat \<times> int \<times> string" where
  "sort_rank None = (0, 0, [])"
| "sort_rank (Some VNull) = (0, 0, [])"
| "sort_rank (Some (VNum n)) = (1, n, [])"
| "sort_rank (Some (VStr s)) = (2, 0, s)"
| "sort_rank (Some (VId i)) = (3, int i, [])"
| "sort_rank (Some (VBool b)) = (4, (if b then 1 else 0), [])"
| "sort_rank (Some (VDate t)) = (5, int t, [])"
| "sort_rank (Some (VObj x)) = (2, 1, [])"

definition sort_by :: "string \<times> int \<Rightarrow> doc list \<Rightarrow> doc list" where
  "sort_by = (\<lambda>(k, dir) ds.
     if dir < 0 then rev (sort_key (\<lambda>d. sort_rank (get d k)) (rev ds))
     else sort_key (\<lambda>d. sort_rank (get d k)) ds)"

definition sort_docs :: "(string \<times> int) list \<Rightarrow> doc list \<Rightarrow> doc list" where
  "sort_docs spec ds = foldr sort_by spec ds"

definition apply_limit :: "int option \<Rightarrow> doc list \<Rightarrow> doc list" where
  "apply_limit l ds = (case l of None \<Rightarrow> ds | Some n \<Rightarrow> if n = 0 then ds else take (nat \<bar>n\<bar>) ds)"

definition window :: "find_options \<Rightarrow> doc list \<Rightarrow> thrown + doc list" where
  "window opts ds =
     (case opt_skip opts of
        None \<Rightarrow> Inr (apply_limit (opt_limit opts) ds)
      | Some k \<Rightarrow>
          if k < 0 then Inl (JsError ''Skip value must be non-negative'')
          else Inr (apply_limit (opt_limit opts) (drop (nat k) ds)))"

definition find_docs :: "query \<Rightarrow> find_options \<Rightarrow> doc list \<Rightarrow> thrown + doc list" where
  "find_docs q opts ds = window opts (sort_docs (opt_sort opts) (filter (matches q) ds))"

fun update_first :: "(doc \<Rightarrow> bool) \<Rightarrow> (doc \<Rightarrow> doc) \<Rightarrow> doc list \<Rightarrow> doc option \<times> doc list" where
  "update_first P f [] = (None, [])"
| "update_first P f (d # ds) =
     (if P d then (Some (f d), f d # ds)
      else (case update_first P f ds of (r, ds') \<Rightarrow> (r, d # ds')))"

fun delete_first :: "(doc \<Rightarrow> bool) \<Rightarrow> doc list \<Rightarrow> doc option \<times> doc list" where
  "delete_first P [] = (None, [])"
| "delete_first P (d # ds) =
     (if P d then (Some d, ds)
      else (case delete_first P ds of (r, ds') \<Rightarrow> (r, d # ds')))"

definition new_id :: "doc list \<Rightarrow> nat" where
  "new_id ds = Suc (fold (\<lambda>d m. case get d ''_id'' of Some (VId i) \<Rightarrow> max i m | _ \<Rightarrow> m) ds 0)"

definition with_id :: "doc list \<Rightarrow> doc \<Rightarrow> doc" where
  "with_id ds d = (if has_key ''_id'' d then d else (''_id'', VId (new_id ds)) # d)"

definition id_taken :: "doc list \<Rightarrow> doc \<Rightarrow> bool" where
  "id_taken ds d = list_ex (\<lambda>e. get e ''_id'' = get d ''_id'') ds"

definition insert_error :: "(doc list \<Rightarrow> doc \<Rightarrow> string option) \<Rightarrow> doc list \<Rightarrow> doc \<Rightarrow> string option" where
  "insert_error refusing ds d =
     (if id_taken ds d then Some ''E11000 duplicate key error'' else refusing ds d)"

definition model_save :: "doc \<Rightarrow> doc io" where
  "model_save input w = engine (OpSave input) (\<lambda>ds.
     let d = with_id ds input in
     case insert_error (refuses w) ds d of
       Some m \<Rightarrow> (Inl (JsError m), ds)
     | None \<Rightarrow> (Inr d, ds @ [d])) w"

text \<open>
  \<open>insertMany\<close>: the documents are inserted in order; a failing insert ends the run when
  \<open>ordered\<close>, and is passed over otherwise; in both cases the call then fails, with the
  error of the first insert that failed.
\<close>

fun insert_each ::
  "(doc list \<Rightarrow> doc \<Rightarrow> string option) \<Rightarrow> bool \<Rightarrow> doc list \<Rightarrow> doc list
     \<Rightarrow> string option \<times> doc list \<times> doc list"
where
  "insert_each refusing ordered [] ds = (None, [], ds)"
| "insert_each refusing ordered (x # xs) ds =
     (let d = with_id ds x in
      case insert_error refusing ds d of
        Some m \<Rightarrow>
          (if ordered then (Some m, [], ds)
           else (case insert_each refusing ordered xs ds of (err, made, ds') \<Rightarrow> (Some m, made, ds')))
      | None \<Rightarrow>
          (case insert_each refusing ordered xs (ds @ [d]) of (err, made, ds') \<Rightarrow> (err, d # made, ds')))"

definition model_insertMany :: "doc list \<Rightarrow> bool \<Rightarrow> doc list io" where
  "model_insertMany items ordered w = engine (OpInsertMany items ordered) (\<lambda>ds.
     case insert_each (refuses w) ordered items ds of
       (err, made, ds') \<Rightarrow>
         (case err of None \<Rightarrow> (Inr made, ds') | Some m \<Rightarrow> (Inl (JsError m), ds'))) w"

definition model_find :: "query \<Rightarrow> find_options \<Rightarrow> doc list io" where
  "model_find q opts = engine (OpFind q opts) (\<lambda>ds. (find_docs q opts ds, ds))"

definition model_findOne :: "query \<Rightarrow> doc option io" where
  "model_findOne q = engine (OpFindOne q) (\<lambda>ds. (Inr (find (matches q) ds), ds))"

definition model_findOneAndUpdate :: "query \<Rightarrow> update_query \<Rightarrow> doc option io" where
  "model_findOneAndUpdate q u = engine (OpFindOneAndUpdate q u) (\<lambda>ds.
     case update_first (matches q) (apply_update u) ds of (r, ds') \<Rightarrow> (Inr r, ds'))"

definition model_updateMany :: "query \<Rightarrow> update_query \<Rightarrow> nat io" where
  "model_updateMany q u = engine (OpUpdateMany q u) (\<lambda>ds.
     (Inr (length (filter (\<lambda>d. matches q d \<and> apply_update u d \<noteq> d) ds)),
      map (\<lambda>d. if matches q d then apply_update u d else d) ds))"

definition model_findOneAndDelete :: "query \<Rightarrow> doc option io" where
  "model_findOneAndDelete q = engine (OpFindOneAndDelete q) (\<lambda>ds.
     case delete_first (matches q) ds of (r, ds') \<Rightarrow> (Inr r, ds'))"

definition model_deleteMany :: "query \<Rightarrow> nat io" where
  "model_deleteMany q = engine (OpDeleteMany q) (\<lambda>ds.
     (Inr (length (filter (matches q) ds)), filter (\<lambda>d. \<not> matches q d) ds))"

definition model_countDocuments :: "query \<Rightarrow> find_options \<Rightarrow> nat io" where
  "model_countDocuments q opts = engine (OpCountDocuments q opts) (\<lambda>ds.
     (case window opts (filter (matches q) ds) of Inl e \<Rightarrow> Inl e | Inr xs \<Rightarrow> Inr (length xs), ds))"

definition model_exists :: "query \<Rightarrow> doc option io" where
  "model_exists q = engine (OpExists q) (\<lambda>ds. (Inr (find (matches q) ds), ds))"

text \<open>\<open>doc.populate\<close>: a call to the engine; the expansion of references is not modelled.\<close>

definition doc_populate :: "string list \<Rightarrow> doc \<Rightarrow> doc io" where
  "doc_populate paths d = engine (OpPopulate paths) (\<lambda>ds. (Inr d, ds))"

subsection \<open>Sequencing\<close>

definition bind :: "'a io \<Rightarrow> ('a \<Rightarrow> 'b io) \<Rightarrow> 'b io" where
  "bind m f w = (case m w of (Inl e, w') \<Rightarrow> (Inl e, w') | (Inr x, w') \<Rightarrow> f x w')"

definition return :: "'a \<Rightarrow> 'a io" where
  "return x w = (Inr x, w)"

definition throw :: "thrown \<Rightarrow> 'a io" where
  "throw e w = (Inl e, w)"

text \<open>\<open>new Date()\<close> and \<open>Date.now()\<close> read the clock.\<close>

definition now :: "world \<Rightarrow> nat" where
  "now w = clock w"

section \<open>The repository\<close>

text \<open>
  \<open>BaseRepository\<close>. Identifiers are already object ids (the conversion from a string
  is not modelled); the \<open>options\<close> argument is modelled where it carries sort, skip and
  limit (\<open>findAll\<close>, \<open>countDocuments\<close>).
\<close>

definition not_deleted :: "query \<Rightarrow> query" where
  "not_deleted q = spread q [(''deletedAt'', Is (Eq VNull))]"

definition by_id :: "nat \<Rightarrow> query" where
  "by_id i = [(''_id'', Is (Eq (VId i)))]"

definition set_deletedAt :: "nat \<Rightarrow> update_query" where
  "set_deletedAt t = \<lparr>upd_set = [(''deletedAt'', VDate t)], upd_unset = []\<rparr>"

definition repo_create :: "doc \<Rightarrow> doc io" where
  "repo_create input = model_save input"

definition repo_createMany :: "doc list \<Rightarrow> bool \<Rightarrow> doc list io" where
  "repo_createMany items ordered = model_insertMany items ordered"

definition repo_findAll :: "query \<Rightarrow> find_options \<Rightarrow> bool \<Rightarrow> doc list io" where
  "repo_findAll q options includeDeleted =
     model_find (if includeDeleted then q else not_deleted q) options"

definition repo_findById :: "nat \<Rightarrow> bool \<Rightarrow> doc option io" where
  "repo_findById i includeDeleted =
     model_findOne (if includeDeleted then by_id i else by_id i @ [(''deletedAt'', Is (Eq VNull))])"

definition repo_findOne :: "query \<Rightarrow> bool \<Rightarrow> doc option io" where
  "repo_findOne q includeDeleted = model_findOne (if includeDeleted then q else not_deleted q)"

definition repo_update :: "query \<Rightarrow> update_query \<Rightarrow> bool \<Rightarrow> doc option io" where
  "repo_update q u includeDeleted =
     model_findOneAndUpdate (if includeDeleted then q else not_deleted q) u"

definition repo_updateById :: "nat \<Rightarrow> update_query \<Rightarrow> doc option io" where
  "repo_updateById i u = model_findOneAndUpdate (by_id i) u"

definition repo_updateMany :: "query \<Rightarrow> update_query \<Rightarrow> nat io" where
  "repo_updateMany flt u = model_updateMany (not_deleted flt) u"

definition repo_delete :: "query \<Rightarrow> bool \<Rightarrow> doc option io" where
  "repo_delete q softDelete w =
     (if softDelete then repo_update q (set_deletedAt (now w)) True w
      else model_findOneAndDelete q w)"

definition repo_deleteById :: "nat \<Rightarrow> bool \<Rightarrow> doc option io" where
  "repo_deleteById i softDelete w =
     (if softDelete then repo_updateById i (set_deletedAt (now w)) w
      else model_findOneAndDelete (by_id i) w)"

definition repo_deleteMany :: "query \<Rightarrow> bool \<Rightarrow> nat io" where
  "repo_deleteMany flt softDelete w =
     (if softDelete then model_updateMany flt (set_deletedAt (now w)) w
      else model_deleteMany flt w)"

definition repo_restore :: "query \<Rightarrow> doc option io" where
  "repo_restore q =
     bind (repo_findOne (spread q [(''deletedAt'', Is (Ne VNull))]) True) (\<lambda>deletedDoc.
       case deletedDoc of
         None \<Rightarrow> return None
       | Some d \<Rightarrow>
           repo_update [(''_id'', Is (Eq (case get d ''_id'' of Some v \<Rightarrow> v | None \<Rightarrow> VNull)))]
             \<lparr>upd_set = [], upd_unset = [''deletedAt'', ''deletedBy'']\<rparr> True)"

definition repo_restoreById :: "nat \<Rightarrow> doc option io" where
  "repo_restoreById i =
     bind (repo_findById i True) (\<lambda>deletedDoc.
       case deletedDoc of
         None \<Rightarrow> return None
       | Some d \<Rightarrow>
           repo_update (by_id i) \<lparr>upd_set = [], upd_unset = [''deletedAt'', ''deletedBy'']\<rparr> True)"

definition repo_restoreMany :: "query \<Rightarrow> nat io" where
  "repo_restoreMany flt =
     model_updateMany (spread flt [(''deletedAt'', Is (Ne VNull))])
       \<lparr>upd_set = [], upd_unset = [''deletedAt'']\<rparr>"

definition repo_countDocuments :: "query \<Rightarrow> find_options \<Rightarrow> bool \<Rightarrow> nat io" where
  "repo_countDocuments q options includeDeleted =
     model_countDocuments (if includeDeleted then q else not_deleted q) options"

definition repo_exists :: "query \<Rightarrow> bool \<Rightarrow> bool io" where
  "repo_exists flt includeDeleted =
     bind (model_exists (if includeDeleted then flt else not_deleted flt)) (\<lambda>r.
       return (r \<noteq> None))"

section \<open>The service\<close>

subsection \<open>Configuration\<close>

text \<open>
  \<open>MergedServiceConfig\<close>, with the fields the operations read. Hooks and validators are
  supplied by the caller and receive their documents by reference: the model keeps what
  they leave in the document, and their outcome, a normal return or the value thrown. They
  are taken to settle, and to leave the collection alone. The slug generator receives the
  raw source value.
\<close>

type_synonym hook = "doc \<Rightarrow> doc \<times> thrown option"

type_synonym update_hook = "doc \<Rightarrow> doc \<Rightarrow> (doc \<times> doc) \<times> thrown option"

type_synonym validator = "val \<Rightarrow> doc \<Rightarrow> doc \<times> (thrown + bool)"

record pagination_config =
  defaultLimit :: int
  maxLimit :: int
  defaultPage :: int

record search_config =
  search_enabled :: bool
  search_fields :: "string list"
  caseSensitive :: bool

record filter_config =
  allowedFields :: "string list"
  defaultSort :: "(string \<times> int) list"

record slug_config =
  slug_enabled :: bool
  sourceField :: string
  targetField :: string
  generator :: "val \<Rightarrow> string"
  uniqueResolver :: "string \<Rightarrow> nat \<Rightarrow> string"

record populate_config =
  populate_fields :: "string list"
  defaultPopulate :: bool

record validation_config =
  customValidators :: "(string \<times> validator) list"
  preValidate :: "hook option"
  postValidate :: "hook option"

record hooks_config =
  beforeCreate :: "hook option"
  afterCreate :: "hook option"
  beforeUpdate :: "update_hook option"
  afterUpdate :: "hook option"
  beforeDelete :: "hook option"
  afterDelete :: "hook option"

record cache_config =
  cache_enabled :: bool
  ttl :: int

record service_config =
  pagination :: pagination_config
  search :: search_config
  filtering :: filter_config
  slug :: slug_config
  populate :: populate_config
  validation :: validation_config
  hooks :: hooks_config
  caching :: cache_config
  softDelete :: bool

text \<open>The defaults of \<open>mergeConfig\<close>; the default generator \<open>slugify\<close> is a parameter.\<close>

definition defaultUniqueResolver :: "string \<Rightarrow> nat \<Rightarrow> string" where
  "defaultUniqueResolver baseSlug count = baseSlug @ ''-'' @ string_of_nat count"

definition defaultConfig :: "(val \<Rightarrow> string) \<Rightarrow> service_config" where
  "defaultConfig slugify =
     \<lparr>pagination = \<lparr>defaultLimit = 10, maxLimit = 100, defaultPage = 1\<rparr>,
      search = \<lparr>search_enabled = False, search_fields = [], caseSensitive = False\<rparr>,
      filtering = \<lparr>allowedFields = [], defaultSort = [(''createdAt'', - 1)]\<rparr>,
      slug = \<lparr>slug_enabled = False, sourceField = ''name'', targetField = ''slug'',
               generator = slugify, uniqueResolver = defaultUniqueResolver\<rparr>,
      populate = \<lparr>populate_fields = [], defaultPopulate = False\<rparr>,
      validation = \<lparr>customValidators = [], preValidate = None, postValidate = None\<rparr>,
      hooks = \<lparr>beforeCreate = None, afterCreate = None, beforeUpdate = None,
               afterUpdate = None, beforeDelete = None, afterDelete = None\<rparr>,
      caching = \<lparr>cache_enabled = False, ttl = 300\<rparr>,
      softDelete = True\<rparr>"

subsection \<open>The response envelope\<close>

datatype jsnum = Finite int | Infinity | NaN

record page_meta =
  meta_page :: int
  meta_limit :: int
  meta_totalPages :: jsnum
  meta_remainingItems :: int
  meta_pageItemsCount :: nat

record meta =
  meta_total :: nat
  meta_results :: nat
  meta_paging :: "page_meta option"

datatype payload = One doc | Many "doc list"

datatype envelope = Success "meta option" payload | Failure error_response

text \<open>
  A service operation is an \<open>async\<close> function: its promise is fulfilled with an envelope
  (\<open>Inr\<close>) or rejected with the value thrown (\<open>Inl\<close>), which the caller then receives as
  an exception. A \<open>catch\<close> block turns what was thrown in the awaited part of its
  \<open>try\<close> block into a failure envelope: an \<open>ErrorResponse\<close> as it is, anything else by
  reading its \<open>message\<close>. For \<open>null\<close> and \<open>undefined\<close> that reading throws a
  \<open>TypeError\<close> inside the \<open>catch\<close> block, and the operation rejects with it.
\<close>

definition type_error :: "string \<Rightarrow> thrown" where
  "type_error what =
     JsError (''Cannot read properties of '' @ what @ '' (reading '' @ quoted ''message'' @ '')'')"

definition error_envelope :: "string \<Rightarrow> thrown \<Rightarrow> thrown + envelope" where
  "error_envelope fallback e =
     (case e of
        Thrown r \<Rightarrow> Inr (Failure r)
      | JsError m \<Rightarrow> Inr (Failure (ErrorResponse fallback m []))
      | ThrownNull \<Rightarrow> Inl (type_error ''null'')
      | ThrownUndefined \<Rightarrow> Inl (type_error ''undefined''))"

definition try_catch :: "string \<Rightarrow> envelope io \<Rightarrow> envelope io" where
  "try_catch fallback body w =
     (case body w of (Inl e, w') \<Rightarrow> (error_envelope fallback e, w') | (Inr v, w') \<Rightarrow> (Inr v, w'))"

text \<open>
  \<open>Promise.all\<close> over started tasks: all of them run, in list order; the result is the
  list of their values, or, when some of them fail, the failure that comes first in time.
  Which one that is depends on the timing of the answers: the world's \<open>race\<close> picks it
  among the failures.
\<close>

fun settle_all :: "'a io list \<Rightarrow> world \<Rightarrow> (thrown + 'a) list \<times> world" where
  "settle_all [] w = ([], w)"
| "settle_all (m # ms) w =
     (case m w of (r, w') \<Rightarrow> (case settle_all ms w' of (rs, w'') \<Rightarrow> (r # rs, w'')))"

fun rejected :: "(thrown + 'a) list \<Rightarrow> thrown list" where
  "rejected [] = []"
| "rejected (Inl e # rs) = e # rejected rs"
| "rejected (Inr x # rs) = rejected rs"

fun fulfilled :: "(thrown + 'a) list \<Rightarrow> 'a list" where
  "fulfilled [] = []"
| "fulfilled (Inl e # rs) = fulfilled rs"
| "fulfilled (Inr x # rs) = x # fulfilled rs"

definition first_rejection :: "world \<Rightarrow> thrown list \<Rightarrow> thrown" where
  "first_rejection w es = es ! (race w (length es) mod length es)"

definition all_settled :: "world \<Rightarrow> (thrown + 'a) list \<Rightarrow> thrown + 'a list" where
  "all_settled w rs =
     (if rejected rs = [] then Inr (fulfilled rs) else Inl (first_rejection w (rejected rs)))"

definition promise_all :: "'a io list \<Rightarrow> 'a list io" where
  "promise_all ms w = (case settle_all ms w of (rs, w') \<Rightarrow> (all_settled w' rs, w'))"

subsection \<open>Private helpers\<close>

record service =
  config :: service_config
  uniqueFields :: "string list"

definition doc_id :: "doc \<Rightarrow> nat option" where
  "doc_id d = (case get d ''_id'' of Some (VId i) \<Rightarrow> Some i | _ \<Rightarrow> None)"

definition exclude_self :: "nat option \<Rightarrow> query" where
  "exclude_self excludeId = (case excludeId of None \<Rightarrow> [] | Some i \<Rightarrow> [(''_id'', Is (Ne (VId i)))])"

definition svc_exists :: "service \<Rightarrow> query \<Rightarrow> bool \<Rightarrow> bool io" where
  "svc_exists svc q includeDeleted = repo_exists q includeDeleted"

definition unique_error :: "(nat \<Rightarrow> string) \<Rightarrow> string \<Rightarrow> val option \<Rightarrow> thrown" where
  "unique_error host_date field v =
     Thrown (ErrorResponse ''UNIQUE_FIELD_ERROR'' (''The '' @ field @ '' must be unique.'')
       [''Value '' @ quoted (String host_date v) @ '' is already taken for '' @ field @ ''.''])"

definition validateUniqueField :: "service \<Rightarrow> doc \<Rightarrow> nat option \<Rightarrow> string \<Rightarrow> unit io" where
  "validateUniqueField svc d excludeId field =
     (case get d field of
        None \<Rightarrow> return ()
      | Some v \<Rightarrow>
          if \<not> truthy (Some v) then return ()
          else
            bind (svc_exists svc (spread [(field, Is (Eq v))] (exclude_self excludeId)) False)
              (\<lambda>ex w. if ex then throw (unique_error (date_text w) field (Some v)) w else return () w))"

definition validateUniqueFields :: "service \<Rightarrow> doc \<Rightarrow> nat option \<Rightarrow> unit io" where
  "validateUniqueFields svc d excludeId =
     bind (promise_all (map (validateUniqueField svc d excludeId) (uniqueFields svc)))
       (\<lambda>_. return ())"

definition slug_query :: "string \<Rightarrow> string \<Rightarrow> nat option \<Rightarrow> query" where
  "slug_query target s excludeId = spread [(target, Is (Eq (VStr s)))] (exclude_self excludeId)"

text \<open>
  The \<open>while (true)\<close> loop of \<open>generateUniqueSlug\<close> has no bound: where it does not end,
  the result is \<open>None\<close>.
\<close>

partial_function (option) slug_loop ::
  "slug_config \<Rightarrow> val \<Rightarrow> nat option \<Rightarrow> string \<Rightarrow> nat \<Rightarrow> world \<Rightarrow> ((thrown + string) \<times> world) option"
where
  "slug_loop sc sourceValue excludeId s count w =
     (case repo_exists (slug_query (targetField sc) s excludeId) False w of
        (Inl e, w') \<Rightarrow> Some (Inl e, w')
      | (Inr ex, w') \<Rightarrow>
          if \<not> ex then Some (Inr s, w')
          else slug_loop sc sourceValue excludeId
                 (uniqueResolver sc (generator sc sourceValue) (count + 1)) (count + 1) w')"

declare slug_loop.simps [code]

text \<open>
  A task is an action that may not end (\<open>None\<close>); \<open>create\<close>, \<open>update\<close> and \<open>bulkCreate\<close>,
  which run the loop, are tasks.
\<close>

type_synonym 'a task = "world \<Rightarrow> ((thrown + 'a) \<times> world) option"

definition lift :: "'a io \<Rightarrow> 'a task" where
  "lift m w = Some (m w)"

definition bindT :: "'a task \<Rightarrow> ('a \<Rightarrow> 'b task) \<Rightarrow> 'b task" where
  "bindT m f w =
     (case m w of
        None \<Rightarrow> None
      | Some (Inl e, w') \<Rightarrow> Some (Inl e, w')
      | Some (Inr x, w') \<Rightarrow> f x w')"

definition try_catchT :: "string \<Rightarrow> envelope task \<Rightarrow> envelope task" where
  "try_catchT fallback body w =
     (case body w of
        None \<Rightarrow> None
      | Some (Inl e, w') \<Rightarrow> Some (error_envelope fallback e, w')
      | Some (Inr v, w') \<Rightarrow> Some (Inr v, w'))"

definition generateUniqueSlug :: "service \<Rightarrow> doc \<Rightarrow> nat option \<Rightarrow> doc task" where
  "generateUniqueSlug svc d excludeId =
     (let sc = slug (config svc) in
      if \<not> slug_enabled sc then lift (return d)
      else if \<not> has_key (sourceField sc) d then
        lift (throw (JsError (''Source field '' @ quoted (sourceField sc) @ '' not found in document.'')))
      else
        (case get d (sourceField sc) of
           None \<Rightarrow> lift (return d)
         | Some sourceValue \<Rightarrow>
             if \<not> truthy (Some sourceValue) then lift (return d)
             else
               bindT (slug_loop sc sourceValue excludeId (generator sc sourceValue) 0)
                 (\<lambda>s. lift (return (AList.update (targetField sc) (VStr s) d)))))"

definition applyPopulation :: "service \<Rightarrow> doc \<Rightarrow> doc io" where
  "applyPopulation svc d =
     (if \<not> defaultPopulate (populate (config svc)) \<or> populate_fields (populate (config svc)) = []
      then return d
      else doc_populate (populate_fields (populate (config svc))) d)"

definition validation_error :: "string \<Rightarrow> thrown" where
  "validation_error field =
     Thrown (ErrorResponse ''VALIDATION_ERROR'' (''Validation failed for field '' @ field @ ''.'')
       [''Invalid value for '' @ field @ ''.''])"

text \<open>
  The custom validators run as the tasks of one \<open>Promise.all\<close>, started in the order of
  the configuration, each for a field the document has. A validator works on the document
  as the validators before it left it; the outcomes are settled as \<open>Promise.all\<close> does.
\<close>

fun run_validators :: "(string \<times> validator) list \<Rightarrow> doc \<Rightarrow> doc \<times> (thrown + unit) list" where
  "run_validators [] d = (d, [])"
| "run_validators ((field, validator) # vs) d =
     (case get d field of
        None \<Rightarrow> (case run_validators vs d of (d', rs) \<Rightarrow> (d', Inr () # rs))
      | Some v \<Rightarrow>
          (case validator v d of
             (d1, outcome) \<Rightarrow>
               (case run_validators vs d1 of
                  (d', rs) \<Rightarrow>
                    (d', (case outcome of
                            Inl e \<Rightarrow> Inl e
                          | Inr isValid \<Rightarrow> if \<not> isValid then Inl (validation_error field) else Inr ())
                         # rs))))"

definition runCustomValidators :: "service \<Rightarrow> doc \<Rightarrow> doc io" where
  "runCustomValidators svc d w =
     (case run_validators (customValidators (validation (config svc))) d of
        (d', rs) \<Rightarrow> (case all_settled w rs of Inl e \<Rightarrow> (Inl e, w) | Inr _ \<Rightarrow> (Inr d', w)))"

text \<open>
  Calling a hook, if there is one: the result is the document as the hook leaves it.
\<close>

definition call :: "hook option \<Rightarrow> doc \<Rightarrow> doc io" where
  "call h d =
     (case h of
        None \<Rightarrow> return d
      | Some f \<Rightarrow> (case f d of (d', None) \<Rightarrow> return d' | (d', Some e) \<Rightarrow> throw e))"

definition executeHook :: "hook option \<Rightarrow> doc \<Rightarrow> doc io" where
  "executeHook hook d = call hook d"

definition executeHook2 :: "update_hook option \<Rightarrow> doc \<Rightarrow> doc \<Rightarrow> (doc \<times> doc) io" where
  "executeHook2 hook d updateData =
     (case hook of
        None \<Rightarrow> return (d, updateData)
      | Some f \<Rightarrow> (case f d updateData of (both, None) \<Rightarrow> return both | (both, Some e) \<Rightarrow> throw e))"

definition validateDocument :: "service \<Rightarrow> doc \<Rightarrow> doc io" where
  "validateDocument svc d =
     bind (call (preValidate (validation (config svc))) d) (\<lambda>d1.
     bind (runCustomValidators svc d1) (\<lambda>d2.
     call (postValidate (validation (config svc))) d2))"

definition not_found :: "string \<Rightarrow> thrown" where
  "not_found msg = Thrown (ErrorResponse ''NOT_FOUND_ERROR'' msg [])"

definition populated :: "service \<Rightarrow> doc \<Rightarrow> doc io" where
  "populated svc d = (if defaultPopulate (populate (config svc)) then applyPopulation svc d else return d)"

subsection \<open>Cache\<close>

record cache_entry =
  entry_data :: envelope
  entry_timestamp :: nat

type_synonym cache = "(string \<times> cache_entry) list"

definition getCacheKey :: "string \<Rightarrow> string \<Rightarrow> string" where
  "getCacheKey method params_json = method @ '':'' @ params_json"

definition getCachedData ::
  "service \<Rightarrow> string \<Rightarrow> envelope io \<Rightarrow> cache \<times> world \<Rightarrow> (thrown + envelope) \<times> (cache \<times> world)"
where
  "getCachedData svc key getter = (\<lambda>(c, w).
     if \<not> cache_enabled (caching (config svc)) then
       (case getter w of (r, w') \<Rightarrow> (r, (c, w')))
     else
       (case map_of c key of
          Some cached \<Rightarrow>
            if int (now w) - int (entry_timestamp cached) < ttl (caching (config svc)) * 1000
            then (Inr (entry_data cached), (c, w))
            else
              (case getter w of
                 (Inl e, w') \<Rightarrow> (Inl e, (c, w'))
               | (Inr v, w') \<Rightarrow>
                   (Inr v, (AList.update key \<lparr>entry_data = v, entry_timestamp = now w'\<rparr> c, w')))
        | None \<Rightarrow>
            (case getter w of
               (Inl e, w') \<Rightarrow> (Inl e, (c, w'))
             | (Inr v, w') \<Rightarrow>
                 (Inr v, (AList.update key \<lparr>entry_data = v, entry_timestamp = now w'\<rparr> c, w')))))"

definition clearCache :: "cache \<times> world \<Rightarrow> cache \<times> world" where
  "clearCache = (\<lambda>(c, w). ([], w))"

subsection \<open>Public operations\<close>

definition svc_create :: "service \<Rightarrow> doc \<Rightarrow> envelope task" where
  "svc_create svc input =
     try_catchT ''DATABASE_ERROR''
       (bindT (lift (executeHook (beforeCreate (hooks (config svc))) input)) (\<lambda>input1.
        bindT (lift (validateUniqueFields svc input1 None)) (\<lambda>_.
        bindT (lift (validateDocument svc input1)) (\<lambda>input2.
        bindT (generateUniqueSlug svc input2 None) (\<lambda>input3.
        bindT (lift (repo_create input3)) (\<lambda>saved.
        bindT (lift (executeHook (afterCreate (hooks (config svc))) saved)) (\<lambda>document.
        bindT (lift (populated svc document)) (\<lambda>populatedDoc.
        lift (return (Success None (One populatedDoc)))))))))))"

text \<open>
  The argument of \<open>findAll\<close>, which the method destructures and also serialises for the
  cache key as \<open>arguments[0]\<close>: \<open>undefined\<close> (\<open>None\<close>) when the caller passes nothing, or
  an object with some of eight properties, kept in the order in which the caller wrote
  them. A property that is left out reads as \<open>undefined\<close>; of a property written twice
  the last value counts.
\<close>

datatype arg =
    Query query
  | Sort "(string \<times> int) list"
  | Page int
  | Limit int
  | SearchTerm string
  | Paginate bool
  | IncludeDeleted bool
  | Populate bool

type_synonym findAll_args = "arg list option"

definition properties :: "findAll_args \<Rightarrow> arg list" where
  "properties a = (case a of None \<Rightarrow> [] | Some ps \<Rightarrow> ps)"

definition last_of :: "'a list \<Rightarrow> 'a option" where
  "last_of xs = (case rev xs of [] \<Rightarrow> None | x # _ \<Rightarrow> Some x)"

definition orElse :: "'a option \<Rightarrow> 'a \<Rightarrow> 'a" where
  "orElse x d = (case x of None \<Rightarrow> d | Some v \<Rightarrow> v)"

definition arg_query :: "findAll_args \<Rightarrow> query" where
  "arg_query a =
     orElse (last_of (List.map_filter (\<lambda>p. case p of Query q \<Rightarrow> Some q | _ \<Rightarrow> None) (properties a))) []"

definition arg_sort :: "findAll_args \<Rightarrow> (string \<times> int) list option" where
  "arg_sort a = last_of (List.map_filter (\<lambda>p. case p of Sort x \<Rightarrow> Some x | _ \<Rightarrow> None) (properties a))"

definition arg_page :: "findAll_args \<Rightarrow> int option" where
  "arg_page a = last_of (List.map_filter (\<lambda>p. case p of Page n \<Rightarrow> Some n | _ \<Rightarrow> None) (properties a))"

definition arg_limit :: "findAll_args \<Rightarrow> int option" where
  "arg_limit a = last_of (List.map_filter (\<lambda>p. case p of Limit n \<Rightarrow> Some n | _ \<Rightarrow> None) (properties a))"

definition arg_searchTerm :: "findAll_args \<Rightarrow> string option" where
  "arg_searchTerm a =
     last_of (List.map_filter (\<lambda>p. case p of SearchTerm t \<Rightarrow> Some t | _ \<Rightarrow> None) (properties a))"

definition arg_paginate :: "findAll_args \<Rightarrow> bool option" where
  "arg_paginate a = last_of (List.map_filter (\<lambda>p. case p of Paginate b \<Rightarrow> Some b | _ \<Rightarrow> None) (properties a))"

definition arg_includeDeleted :: "findAll_args \<Rightarrow> bool option" where
  "arg_includeDeleted a =
     last_of (List.map_filter (\<lambda>p. case p of IncludeDeleted b \<Rightarrow> Some b | _ \<Rightarrow> None) (properties a))"

definition arg_populate :: "findAll_args \<Rightarrow> bool option" where
  "arg_populate a = last_of (List.map_filter (\<lambda>p. case p of Populate b \<Rightarrow> Some b | _ \<Rightarrow> None) (properties a))"

definition buildSearchQuery :: "service \<Rightarrow> string option \<Rightarrow> query" where
  "buildSearchQuery svc searchTerm =
     (case searchTerm of
        None \<Rightarrow> []
      | Some term \<Rightarrow>
          if term = [] \<or> \<not> search_enabled (search (config svc)) \<or> search_fields (search (config svc)) = []
          then []
          else [(''$or'', AnyOf (map (\<lambda>field. (field, Regex term (\<not> caseSensitive (search (config svc)))))
                                  (search_fields (search (config svc)))))])"

definition filterAllowedFields :: "service \<Rightarrow> query \<Rightarrow> query" where
  "filterAllowedFields svc q =
     (if allowedFields (filtering (config svc)) = [] then q
      else filter (\<lambda>(key, value). key \<in> set (allowedFields (filtering (config svc)))) q)"

definition Math_ceil_div :: "nat \<Rightarrow> int \<Rightarrow> jsnum" where
  "Math_ceil_div a b =
     (if b = 0 then (if a = 0 then NaN else Infinity) else Finite (- ((- int a) div b)))"

definition finalQuery :: "service \<Rightarrow> findAll_args \<Rightarrow> query" where
  "finalQuery svc args =
     spread (filterAllowedFields svc (arg_query args)) (buildSearchQuery svc (arg_searchTerm args))"

definition finalPage :: "service \<Rightarrow> findAll_args \<Rightarrow> int" where
  "finalPage svc args = max 1 (orElse (arg_page args) (defaultPage (pagination (config svc))))"

definition finalLimit :: "service \<Rightarrow> findAll_args \<Rightarrow> int" where
  "finalLimit svc args =
     min (maxLimit (pagination (config svc))) (orElse (arg_limit args) (defaultLimit (pagination (config svc))))"

definition findAll_options :: "service \<Rightarrow> findAll_args \<Rightarrow> find_options" where
  "findAll_options svc args =
     (let finalSort = orElse (arg_sort args) (defaultSort (filtering (config svc))) in
      if orElse (arg_paginate args) True then
        \<lparr>opt_sort = finalSort,
         opt_skip = Some ((finalPage svc args - 1) * finalLimit svc args),
         opt_limit = Some (finalLimit svc args)\<rparr>
      else \<lparr>opt_sort = finalSort, opt_skip = None, opt_limit = None\<rparr>)"

text \<open>The function passed to \<open>getCachedData\<close> by \<open>findAll\<close>.\<close>

definition findAll_getter :: "service \<Rightarrow> findAll_args \<Rightarrow> envelope io" where
  "findAll_getter svc args =
     (let includeDeleted = orElse (arg_includeDeleted args) False;
          paginate = orElse (arg_paginate args) True;
          doPopulate = orElse (arg_populate args) (defaultPopulate (populate (config svc)))
      in
      bind (promise_all
              [bind (repo_findAll (finalQuery svc args) (findAll_options svc args) includeDeleted)
                 (\<lambda>ds. return (Inl ds)),
               bind (repo_countDocuments [] no_options includeDeleted) (\<lambda>n. return (Inr n))])
        (\<lambda>both.
           let documents = (case both of [Inl ds, _] \<Rightarrow> ds | _ \<Rightarrow> []);
               total = (case both of [_, Inr n] \<Rightarrow> n | _ \<Rightarrow> 0)
           in
           bind (if doPopulate then promise_all (map (applyPopulation svc) documents) else return documents)
             (\<lambda>populatedDocs.
           bind (repo_countDocuments (finalQuery svc args) no_options includeDeleted)
             (\<lambda>results.
                let totalPages = Math_ceil_div results (finalLimit svc args);
                    itemsFetched = finalPage svc args * finalLimit svc args;
                    remaining = int results - itemsFetched;
                    remainingItems = (if remaining > 0 then remaining else 0)
                in
                return (Success
                  (Some \<lparr>meta_total = total, meta_results = results,
                         meta_paging =
                           (if paginate then
                              Some \<lparr>meta_page = finalPage svc args, meta_limit = finalLimit svc args,
                                    meta_totalPages = totalPages, meta_remainingItems = remainingItems,
                                    meta_pageItemsCount = length documents\<rparr>
                            else None)\<rparr>)
                  (Many populatedDocs))))))"

text \<open>
  \<open>findAll\<close> and \<open>findOne\<close> return the promise of \<open>getCachedData\<close> from inside their
  \<open>try\<close> block without awaiting it, so the \<open>catch\<close> block sees nothing of what the
  getter throws. The cache key is made of the method name and of \<open>JSON.stringify\<close> of
  the first argument: the whole argument object for \<open>findAll\<close>, the query for \<open>findOne\<close>.
  \<open>JSON.stringify\<close> is a built-in of the language; it is a parameter here, the function
  \<open>JSON_stringify\<close> from the argument to its text.
\<close>

definition svc_findAll ::
  "service \<Rightarrow> (findAll_args \<Rightarrow> string) \<Rightarrow> findAll_args \<Rightarrow> cache \<times> world
     \<Rightarrow> (thrown + envelope) \<times> (cache \<times> world)"
where
  "svc_findAll svc JSON_stringify args =
     getCachedData svc (getCacheKey ''findAll'' (JSON_stringify args)) (findAll_getter svc args)"

definition findOne_getter :: "service \<Rightarrow> query \<Rightarrow> bool \<Rightarrow> bool \<Rightarrow> envelope io" where
  "findOne_getter svc q doPopulate includeDeleted =
     bind (repo_findOne q includeDeleted) (\<lambda>document.
       case document of
         None \<Rightarrow> throw (not_found ''The requested document was not found.'')
       | Some d \<Rightarrow>
           bind (if doPopulate then applyPopulation svc d else return d) (\<lambda>populatedDoc.
             return (Success None (One populatedDoc))))"

definition svc_findOne ::
  "service \<Rightarrow> (query \<Rightarrow> string) \<Rightarrow> query \<Rightarrow> bool option \<Rightarrow> bool option \<Rightarrow> cache \<times> world
     \<Rightarrow> (thrown + envelope) \<times> (cache \<times> world)"
where
  "svc_findOne svc JSON_stringify q doPopulate includeDeleted =
     getCachedData svc (getCacheKey ''findOne'' (JSON_stringify q))
       (findOne_getter svc q (orElse doPopulate (defaultPopulate (populate (config svc))))
          (orElse includeDeleted False))"

text \<open>
  The update input of the service is an update object as the caller writes it. Mongoose
  puts its top-level fields under \<open>$set\<close>, after the fields \<open>$set\<close> has itself; of the
  update operators, \<open>$set\<close> and \<open>$unset\<close> are modelled.
\<close>

definition is_operator :: "string \<Rightarrow> bool" where
  "is_operator k = (case k of [] \<Rightarrow> False | c # _ \<Rightarrow> c = CHR ''$'')"

definition object_of :: "val option \<Rightarrow> doc" where
  "object_of x = (case x of Some (VObj entries) \<Rightarrow> entries | _ \<Rightarrow> [])"

definition as_update :: "doc \<Rightarrow> update_query" where
  "as_update updateInput =
     \<lparr>upd_set = spread (object_of (get updateInput ''$set''))
                  (filter (\<lambda>(k, v). \<not> is_operator k) updateInput),
      upd_unset = map fst (object_of (get updateInput ''$unset''))\<rparr>"

definition svc_update :: "service \<Rightarrow> query \<Rightarrow> doc \<Rightarrow> bool \<Rightarrow> envelope task" where
  "svc_update svc q updateInput includeDeleted =
     try_catchT ''DATABASE_ERROR''
       (bindT (lift (repo_findOne q includeDeleted)) (\<lambda>found.
          case found of
            None \<Rightarrow> lift (throw (not_found ''Document to update not found.''))
          | Some documentToUpdate \<Rightarrow>
              bindT (lift (executeHook2 (beforeUpdate (hooks (config svc))) documentToUpdate updateInput))
                (\<lambda>(existing, update1).
              bindT (lift (validateUniqueFields svc update1 (doc_id existing))) (\<lambda>_.
              bindT (lift (validateDocument svc update1)) (\<lambda>update2.
              bindT (if slug_enabled (slug (config svc))
                        \<and> get update2 (sourceField (slug (config svc)))
                            \<noteq> get existing (sourceField (slug (config svc)))
                     then generateUniqueSlug svc
                            (spread update2 [(''_id'', orElse (get existing ''_id'') VNull)])
                            (doc_id existing)
                     else lift (return update2)) (\<lambda>_.
              bindT (lift (repo_update q (as_update update2) includeDeleted)) (\<lambda>updated.
                case updated of
                  None \<Rightarrow> lift (throw (not_found ''Updated document not found.''))
                | Some updatedDocument \<Rightarrow>
                    bindT (lift (executeHook (afterUpdate (hooks (config svc))) updatedDocument)) (\<lambda>document.
                    bindT (lift (populated svc document)) (\<lambda>populatedDoc.
                    lift (return (Success None (One populatedDoc))))))))))))"

definition svc_delete :: "service \<Rightarrow> query \<Rightarrow> envelope io" where
  "svc_delete svc q =
     try_catch ''DATABASE_ERROR''
       (bind (repo_findOne q False) (\<lambda>found.
          case found of
            None \<Rightarrow> throw (not_found ''Document to delete not found.'')
          | Some documentToDelete \<Rightarrow>
              bind (executeHook (beforeDelete (hooks (config svc))) documentToDelete) (\<lambda>_.
              bind (repo_delete q (softDelete (config svc))) (\<lambda>deleted.
                case deleted of
                  None \<Rightarrow>
                    throw (not_found (if softDelete (config svc) then ''Document to soft delete not found.''
                                      else ''Document to delete not found.''))
                | Some deletedDocument \<Rightarrow>
                    bind (executeHook (afterDelete (hooks (config svc))) deletedDocument) (\<lambda>document.
                    bind (populated svc document) (\<lambda>populatedDoc.
                    return (Success None (One populatedDoc))))))))"

definition not_supported :: envelope where
  "not_supported =
     Failure (ErrorResponse ''OPERATION_NOT_SUPPORTED'' ''Soft delete is not enabled for this service.'' [])"

definition svc_restore :: "service \<Rightarrow> query \<Rightarrow> envelope io" where
  "svc_restore svc q =
     (if \<not> softDelete (config svc) then return not_supported
      else
        try_catch ''RESTORE_ERROR''
          (bind (repo_restore q) (\<lambda>restored.
             case restored of
               None \<Rightarrow> throw (not_found ''Document not found in deleted state.'')
             | Some restoredDoc \<Rightarrow>
                 bind (populated svc restoredDoc) (\<lambda>populatedDoc.
                 return (Success None (One populatedDoc))))))"

definition svc_findById :: "service \<Rightarrow> nat \<Rightarrow> bool option \<Rightarrow> bool option \<Rightarrow> envelope io" where
  "svc_findById svc i doPopulate includeDeleted =
     try_catch ''DATABASE_ERROR''
       (bind (repo_findById i (orElse includeDeleted False)) (\<lambda>document.
          case document of
            None \<Rightarrow> throw (not_found ''The requested document was not found.'')
          | Some d \<Rightarrow>
              bind (if orElse doPopulate (defaultPopulate (populate (config svc)))
                    then applyPopulation svc d else return d) (\<lambda>populatedDoc.
              return (Success None (One populatedDoc)))))"

definition svc_updateById :: "service \<Rightarrow> nat \<Rightarrow> doc \<Rightarrow> envelope io" where
  "svc_updateById svc i updateInput =
     try_catch ''DATABASE_ERROR''
       (bind (repo_findById i False) (\<lambda>found.
          case found of
            None \<Rightarrow> throw (not_found ''Document to update not found.'')
          | Some documentToUpdate \<Rightarrow>
              bind (executeHook2 (beforeUpdate (hooks (config svc))) documentToUpdate updateInput)
                (\<lambda>(existing, update1).
              bind (validateUniqueFields svc update1 (doc_id existing)) (\<lambda>_.
              bind (validateDocument svc update1) (\<lambda>update2.
              bind (repo_updateById i (as_update update2)) (\<lambda>updated.
                case updated of
                  None \<Rightarrow> throw (not_found ''Updated document not found.'')
                | Some updatedDocument \<Rightarrow>
                    bind (executeHook (afterUpdate (hooks (config svc))) updatedDocument) (\<lambda>document.
                    bind (populated svc document) (\<lambda>populatedDoc.
                    return (Success None (One populatedDoc))))))))))"

definition svc_deleteById :: "service \<Rightarrow> nat \<Rightarrow> envelope io" where
  "svc_deleteById svc i =
     try_catch ''DATABASE_ERROR''
       (bind (repo_findById i False) (\<lambda>found.
          case found of
            None \<Rightarrow> throw (not_found ''Document to delete not found.'')
          | Some documentToDelete \<Rightarrow>
              bind (executeHook (beforeDelete (hooks (config svc))) documentToDelete) (\<lambda>_.
              bind (repo_deleteById i (softDelete (config svc))) (\<lambda>deleted.
                case deleted of
                  None \<Rightarrow>
                    throw (not_found (if softDelete (config svc) then ''Document to soft delete not found.''
                                      else ''Document to delete not found.''))
                | Some deletedDocument \<Rightarrow>
                    bind (executeHook (afterDelete (hooks (config svc))) deletedDocument) (\<lambda>document.
                    bind (populated svc document) (\<lambda>populatedDoc.
                    return (Success None (One populatedDoc))))))))"

definition svc_restoreById :: "service \<Rightarrow> nat \<Rightarrow> envelope io" where
  "svc_restoreById svc i =
     (if \<not> softDelete (config svc) then return not_supported
      else
        try_catch ''RESTORE_ERROR''
          (bind (repo_restoreById i) (\<lambda>restored.
             case restored of
               None \<Rightarrow> throw (not_found ''Document not found in deleted state.'')
             | Some restoredDoc \<Rightarrow>
                 bind (populated svc restoredDoc) (\<lambda>populatedDoc.
                 return (Success None (One populatedDoc))))))"

text \<open>
  \<open>Promise.all\<close> over tasks: a failure settles it even when another task never ends.
\<close>

fun settle_allT :: "'a task list \<Rightarrow> world \<Rightarrow> (thrown + 'a) option list \<times> world" where
  "settle_allT [] w = ([], w)"
| "settle_allT (m # ms) w =
     (case m w of
        None \<Rightarrow> (case settle_allT ms w of (rs, w'') \<Rightarrow> (None # rs, w''))
      | Some (r, w') \<Rightarrow> (case settle_allT ms w' of (rs, w'') \<Rightarrow> (Some r # rs, w'')))"

definition promise_allT :: "'a task list \<Rightarrow> 'a list task" where
  "promise_allT ms w =
     (case settle_allT ms w of
        (rs, w') \<Rightarrow>
          if rejected (List.map_filter (\<lambda>r. r) rs) \<noteq> []
          then Some (Inl (first_rejection w' (rejected (List.map_filter (\<lambda>r. r) rs))), w')
          else if list_ex (\<lambda>r. r = None) rs then None
          else Some (Inr (fulfilled (List.map_filter (\<lambda>r. r) rs)), w'))"


section \<open>Example services and collections\<close>

text \<open>
  A generator standing in for \<open>slugify\<close> in the examples: the lower-cased text of a
  string.
\<close>

definition lower_slug :: "val \<Rightarrow> string" where
  "lower_slug v = (case v of VStr text \<Rightarrow> map to_lower text | _ \<Rightarrow> [])"

definition plain_service :: service where
  "plain_service = \<lparr>config = defaultConfig lower_slug, uniqueFields = []\<rparr>"

definition slug_service :: service where
  "slug_service =
     \<lparr>config = (defaultConfig lower_slug)
        \<lparr>slug := \<lparr>slug_enabled = True, sourceField = ''name'', targetField = ''slug'',
                   generator = lower_slug, uniqueResolver = defaultUniqueResolver\<rparr>\<rparr>,
      uniqueFields = []\<rparr>"

text \<open>
  A collection at time 1000 whose engine answers at once and accepts every insert, on a
  host where the first failure of a \<open>Promise.all\<close> in list order is the first in time;
  no date is printed in the examples.
\<close>

text \<open>The slug service with a hook that gives every new document the name \<open>Alpha\<close>.\<close>

definition naming_service :: service where
  "naming_service =
     slug_service\<lparr>config := (config slug_service)
        \<lparr>hooks := (hooks (config slug_service))
           \<lparr>beforeCreate := Some (\<lambda>d. (AList.update ''name'' (VStr ''Alpha'') d, None))\<rparr>\<rparr>\<rparr>"

definition collection :: "doc list \<Rightarrow> world" where
  "collection ds =
     \<lparr>docs = ds, fault = None, oplog = [], clock = 1000, latency = 0,
      refuses = (\<lambda>ds d. None), race = (\<lambda>n. 0), date_text = (\<lambda>t. [])\<rparr>"

text \<open>The argument \<open>{}\<close>, and the argument \<open>{page: p, limit: l}\<close>.\<close>

definition no_args :: findAll_args where
  "no_args = Some []"

text \<open>A record of the collection is live when its \<open>deletedAt\<close> is null or missing.\<close>

definition live :: "doc \<Rightarrow> bool" where
  "live d = holds (Eq VNull) (get d ''deletedAt'')"

definition alpha :: doc where
  "alpha = [(''_id'', VId 1), (''name'', VStr ''Alpha''), (''slug'', VStr ''alpha'')]"

definition removed :: doc where
  "removed = [(''_id'', VId 1), (''deletedAt'', VDate 5), (''deletedBy'', VStr ''u1'')]"






text \<open>
  \<open>later w w'\<close>: the world \<open>w'\<close> has the documents of \<open>w\<close>, a log that continues the log
  of \<open>w\<close> and a clock that is not behind, and is the same otherwise. An action that only
  reads leads to such a world.
\<close>

definition later :: "world \<Rightarrow> world \<Rightarrow> bool" where
  "later w w' =
     (docs w' = docs w \<and> fault w' = fault w \<and> latency w' = latency w \<and> clock w \<le> clock w'
      \<and> refuses w' = refuses w \<and> race w' = race w \<and> date_text w' = date_text w
      \<and> (\<exists>rest. oplog w' = oplog w @ rest))"

definition reads_only :: "'a io \<Rightarrow> bool" where
  "reads_only m = (\<forall>w. later w (snd (m w)))"

text \<open>The query the repository sends for a caller's query.\<close>

definition visible :: "bool \<Rightarrow> query \<Rightarrow> query" where
  "visible includeDeleted q = (if includeDeleted then q else not_deleted q)"

text \<open>Whether \<open>getCachedData\<close> finds an entry that has not expired.\<close>

definition cache_hit :: "service \<Rightarrow> string \<Rightarrow> cache \<times> world \<Rightarrow> bool" where
  "cache_hit svc key = (\<lambda>(c, w).
     cache_enabled (caching (config svc))
     \<and> (case map_of c key of
          None \<Rightarrow> False
        | Some cached \<Rightarrow> int (now w) - int (entry_timestamp cached) < ttl (caching (config svc)) * 1000))"

definition three :: "doc list" where
  "three = [[(''_id'', VId 1)], [(''_id'', VId 2)], [(''_id'', VId 3)]]"

definition page_args :: "int \<Rightarrow> int \<Rightarrow> findAll_args" where
  "page_args p l = Some [Page p, Limit l]"

text \<open>
  For the examples, \<open>JSON.stringify\<close> as it prints an argument object made of \<open>page\<close> and
  \<open>limit\<close> (other properties are left out here).
\<close>

fun commas :: "string list \<Rightarrow> string" where
  "commas [] = []"
| "commas [x] = x"
| "commas (x # y # zs) = x @ '','' @ commas (y # zs)"

definition page_limit_json :: "findAll_args \<Rightarrow> string" where
  "page_limit_json a =
     (case a of
        None \<Rightarrow> ''undefined''
      | Some ps \<Rightarrow>
          ''{'' @ commas (List.map_filter
                   (\<lambda>p. case p of
                          Page n \<Rightarrow> Some ([CHR 0x22] @ ''page'' @ [CHR 0x22] @ '':'' @ string_of_int n)
                        | Limit n \<Rightarrow> Some ([CHR 0x22] @ ''limit'' @ [CHR 0x22] @ '':'' @ string_of_int n)
                        | _ \<Rightarrow> None) ps) @ ''}'')"

definition cached_service :: service where
  "cached_service =
     plain_service\<lparr>config := (config plain_service)\<lparr>caching := \<lparr>cache_enabled = True, ttl = 300\<rparr>\<rparr>\<rparr>"

definition beta :: doc where
  "beta = [(''_id'', VId 2), (''name'', VStr ''Beta'')]"

text \<open>
  The existence query of the uniqueness check, and what it finds: \<open>taken ds field v ex\<close>
  when a record of \<open>ds\<close> matches it, \<open>collides ds d ex field\<close> when the document \<open>d\<close> sets
  \<open>field\<close> to a truthy value that is taken.
\<close>

definition unique_query :: "string \<Rightarrow> val \<Rightarrow> nat option \<Rightarrow> query" where
  "unique_query field v excludeId = not_deleted (spread [(field, Is (Eq v))] (exclude_self excludeId))"

definition taken :: "doc list \<Rightarrow> string \<Rightarrow> val \<Rightarrow> nat option \<Rightarrow> bool" where
  "taken ds field v excludeId = list_ex (matches (unique_query field v excludeId)) ds"



definition unique_service :: service where
  "unique_service = plain_service\<lparr>uniqueFields := [''code'']\<rparr>"

definition zero :: doc where
  "zero = [(''_id'', VId 1), (''code'', VNum 0)]"

definition seven :: doc where
  "seven = [(''_id'', VId 1), (''code'', VNum 7), (''name'', VStr ''Seven'')]"

definition eight :: doc where
  "eight = [(''_id'', VId 2), (''code'', VNum 8)]"

text \<open>
  The slugs the loop of \<open>generateUniqueSlug\<close> tries, in order: the generated slug, then
  the resolver's answer for 1, 2, ...; \<open>slug_taken\<close> is what its existence query finds,
  and \<open>live_slugs\<close> lists the target-field values of the live records.
\<close>

definition slug_candidate :: "slug_config \<Rightarrow> val \<Rightarrow> nat \<Rightarrow> string" where
  "slug_candidate sc v k =
     (if k = 0 then generator sc v else uniqueResolver sc (generator sc v) k)"

definition slug_taken :: "doc list \<Rightarrow> string \<Rightarrow> string \<Rightarrow> nat option \<Rightarrow> bool" where
  "slug_taken ds target s excludeId = list_ex (matches (not_deleted (slug_query target s excludeId))) ds"

definition live_slugs :: "string \<Rightarrow> doc list \<Rightarrow> val list" where
  "live_slugs target ds = List.map_filter (\<lambda>d. get d target) (filter live ds)"

text \<open>
  A run of creates, one after the other on the same collection: the outcome of each and
  the world it leaves; \<open>None\<close> when one of them does not return.
\<close>

fun create_each :: "service \<Rightarrow> doc list \<Rightarrow> world \<Rightarrow> ((thrown + envelope) \<times> world) list option" where
  "create_each svc [] w = Some []"
| "create_each svc (d # ds) w =
     (case svc_create svc d w of
        None \<Rightarrow> None
      | Some (r, w') \<Rightarrow> map_option (\<lambda>rest. (r, w') # rest) (create_each svc ds w'))"

fun succeeded :: "(thrown + envelope) \<times> world \<Rightarrow> bool" where
  "succeeded (Inr (Success m p), w) = True"
| "succeeded (r, w) = False"

definition total_task :: "'a task \<Rightarrow> bool" where
  "total_task m = (\<forall>w. m w \<noteq> None)"

text \<open>
  The engine keeps the \<open>_id\<close> of its records present and distinct; \<open>restored\<close> is what
  \<open>restore\<close> makes of a record.
\<close>

definition has_id :: "doc \<Rightarrow> bool" where
  "has_id d = (case get d ''_id'' of None \<Rightarrow> False | Some v \<Rightarrow> v \<noteq> VNull)"

definition distinct_ids :: "doc list \<Rightarrow> bool" where
  "distinct_ids ds = (list_all has_id ds \<and> distinct (map (\<lambda>d. get d ''_id'') ds))"

definition restored :: "doc \<Rightarrow> doc" where
  "restored d = apply_update \<lparr>upd_set = [], upd_unset = [''deletedAt'', ''deletedBy'']\<rparr> d"

definition only_deleted :: "query \<Rightarrow> query" where
  "only_deleted q = spread q [(''deletedAt'', Is (Ne VNull))]"

section \<open>Evaluation rules\<close>

lemmas engine_defs = engine_def issue_def model_save_def insert_error_def model_insertMany_def model_find_def
  model_findOne_def model_findOneAndUpdate_def model_updateMany_def model_findOneAndDelete_def
  model_deleteMany_def model_countDocuments_def model_exists_def doc_populate_def find_docs_def
  window_def apply_limit_def sort_docs_def sort_by_def with_id_def id_taken_def new_id_def
  matches_def get_def has_key_def spread_def apply_update_def now_def

lemmas repo_defs = repo_create_def repo_createMany_def repo_findAll_def repo_findById_def
  repo_findOne_def repo_update_def repo_updateById_def repo_updateMany_def repo_delete_def
  repo_deleteById_def repo_deleteMany_def repo_restore_def repo_restoreById_def
  repo_restoreMany_def repo_countDocuments_def repo_exists_def not_deleted_def by_id_def
  set_deletedAt_def bind_def return_def throw_def

lemmas helper_defs = try_catchT_def try_catch_def bindT_def lift_def executeHook_def
  executeHook2_def call_def validateUniqueFields_def validateUniqueField_def validateDocument_def
  runCustomValidators_def generateUniqueSlug_def populated_def
  applyPopulation_def error_envelope_def type_error_def quoted_def svc_exists_def slug_query_def
  exclude_self_def unique_error_def validation_error_def not_found_def doc_id_def orElse_def
  as_update_def is_operator_def object_of_def promise_all_def promise_allT_def all_settled_def
  first_rejection_def

lemmas args_defs = properties_def last_of_def arg_query_def arg_sort_def arg_page_def arg_limit_def
  arg_searchTerm_def arg_paginate_def arg_includeDeleted_def arg_populate_def map_filter_simps

lemmas findAll_defs = svc_findAll_def getCachedData_def getCacheKey_def findAll_getter_def
  findAll_options_def finalQuery_def finalPage_def finalLimit_def filterAllowedFields_def
  buildSearchQuery_def Math_ceil_div_def no_options_def args_defs

lemmas example_defs = string_of_nat.simps slug_service_def plain_service_def collection_def defaultConfig_def
  lower_slug_def defaultUniqueResolver_def no_args_def alpha_def removed_def three_def page_args_def
  cached_service_def beta_def unique_service_def zero_def seven_def eight_def args_defs naming_service_def

section \<open>Restoring\<close>

text \<open>
  Claim C9. Every restore operation of the repository should clear both \<open>deletedAt\<close> and
  \<open>deletedBy\<close> of the records it matches, and \<open>restoreById\<close> should return null when no
  soft-deleted record matches. \<open>restore\<close> does both. \<open>restoreMany\<close> unsets \<open>deletedAt\<close>
  only: the restored record keeps its \<open>deletedBy\<close>. \<open>restoreById\<close> looks the record up
  whatever its state, so for a record that was never deleted it returns the record, not
  null.
\<close>

theorem restoreMany_keeps_deletedBy:
  "docs (snd (repo_restoreMany [] (collection [removed]))) = [[(''_id'', VId 1), (''deletedBy'', VStr ''u1'')]]
   \<and> fst (repo_restoreMany [] (collection [removed])) = Inr 1
   \<and> docs (snd (repo_restore [] (collection [removed]))) = [[(''_id'', VId 1)]]
   \<and> live alpha
   \<and> fst (repo_restoreById 1 (collection [alpha])) = Inr (Some alpha)"
  by (simp add: repo_defs engine_defs example_defs live_def)

section \<open>Slugs on update\<close>

text \<open>
  Claim C4. An update that changes the source field should store a new unique slug.
  \<open>update\<close> computes the slug on a copy of the update input and then persists the input
  itself, so the stored slug stays what it was; \<open>updateById\<close> has no slug step at all.
  Here the record named \<open>Alpha\<close> is renamed to \<open>Beta\<close> by either operation, and keeps the
  slug \<open>alpha\<close>, although \<open>update\<close> did ask the repository whether \<open>beta\<close> is taken.
\<close>

theorem update_keeps_slug:
  "map_option (\<lambda>(r, w). (r, docs w))
       (svc_update slug_service (by_id 1) [(''name'', VStr ''Beta'')] False (collection [alpha]))
     = Some (Inr (Success None (One [(''_id'', VId 1), (''name'', VStr ''Beta''), (''slug'', VStr ''alpha'')])),
             [[(''_id'', VId 1), (''name'', VStr ''Beta''), (''slug'', VStr ''alpha'')]])
   \<and> (\<lambda>(r, w). (r, docs w)) (svc_updateById slug_service 1 [(''name'', VStr ''Beta'')] (collection [alpha]))
     = (Inr (Success None (One [(''_id'', VId 1), (''name'', VStr ''Beta''), (''slug'', VStr ''alpha'')])),
        [[(''_id'', VId 1), (''name'', VStr ''Beta''), (''slug'', VStr ''alpha'')]])
   \<and> OpExists [(''slug'', Is (Eq (VStr ''beta''))), (''_id'', Is (Ne (VId 1))), (''deletedAt'', Is (Eq VNull))]
       \<in> set (oplog (snd (the (svc_update slug_service (by_id 1) [(''name'', VStr ''Beta'')] False (collection [alpha])))))"
  by (simp add: svc_update_def svc_updateById_def helper_defs repo_defs engine_defs example_defs
      slug_loop.simps to_lower_def)

section \<open>Exceptions at the service boundary\<close>

text \<open>
  Claim C1. No public operation of the service should let an exception reach the caller.
  \<open>findOne\<close> and \<open>findAll\<close> return the promise of their cached computation without
  awaiting it, so their \<open>catch\<close> blocks never run: \<open>findOne\<close> for a record that does not
  exist rejects with the not-found error instead of returning it in an envelope, and
  \<open>findAll\<close> rejects with the storage error when the engine fails. \<open>findById\<close>, which
  awaits, returns the envelope in both cases.
\<close>

theorem findOne_findAll_reject:
  "fst (svc_findOne plain_service JSON_query (by_id 7) None None ([], collection []))
     = Inl (Thrown (ErrorResponse ''NOT_FOUND_ERROR'' ''The requested document was not found.'' []))
   \<and> fst (svc_findAll plain_service JSON no_args ([], (collection [])\<lparr>fault := Some ''connection lost''\<rparr>))
     = Inl (JsError ''connection lost'')
   \<and> fst (svc_findById plain_service 7 None None (collection []))
     = Inr (Failure (ErrorResponse ''NOT_FOUND_ERROR'' ''The requested document was not found.'' []))
   \<and> fst (svc_findById plain_service 7 None None ((collection [])\<lparr>fault := Some ''connection lost''\<rparr>))
     = Inr (Failure (ErrorResponse ''DATABASE_ERROR'' ''connection lost'' []))"
  by (simp add: svc_findOne_def findOne_getter_def svc_findById_def findAll_defs helper_defs
      repo_defs engine_defs example_defs)

section \<open>Actions that only read\<close>

lemma later_refl: "later w w"
  by (simp add: later_def)

lemma later_trans: "later w w1 \<Longrightarrow> later w1 w2 \<Longrightarrow> later w w2"
  by (auto simp: later_def)

lemma reads_only_later: "reads_only m \<Longrightarrow> m w = (r, w') \<Longrightarrow> later w w'"
  unfolding reads_only_def by (metis snd_conv)

lemma reads_onlyD: "reads_only m \<Longrightarrow> m w = (r, w') \<Longrightarrow> docs w' = docs w \<and> fault w' = fault w"
  using reads_only_later[of m w r w'] by (simp add: later_def)

lemma reads_only_return: "reads_only (return x)"
  by (simp add: reads_only_def return_def later_refl)

lemma reads_only_throw: "reads_only (throw e)"
  by (simp add: reads_only_def throw_def later_refl)

lemma reads_only_bind:
  assumes "reads_only m" "\<And>x. reads_only (f x)"
  shows "reads_only (bind m f)"
  unfolding reads_only_def
proof
  fix w
  obtain r w1 where m: "m w = (r, w1)" by (cases "m w")
  have 1: "later w w1" using reads_only_later[OF assms(1) m] .
  show "later w (snd (bind m f w))"
  proof (cases r)
    case (Inl e)
    then show ?thesis using m 1 by (simp add: bind_def)
  next
    case (Inr x)
    obtain r2 w2 where f: "f x w1 = (r2, w2)" by (cases "f x w1")
    have "later w1 w2" using reads_only_later[OF assms(2) f] .
    then have "later w w2" using 1 later_trans by blast
    then show ?thesis using m Inr f by (simp add: bind_def)
  qed
qed

lemma issue_simps [simp]:
  "fault (issue e w) = fault w" "docs (issue e w) = docs w" "oplog (issue e w) = oplog w @ [e]"
  "clock (issue e w) = clock w + latency w" "latency (issue e w) = latency w"
  "refuses (issue e w) = refuses w" "race (issue e w) = race w" "date_text (issue e w) = date_text w"
  by (simp_all add: issue_def)

lemma engine_read_ok: "fault w = None \<Longrightarrow> engine e (\<lambda>ds. (f ds, ds)) w = (f (docs w), issue e w)"
  by (simp add: engine_def issue_def)

lemma engine_fault: "fault w = Some m \<Longrightarrow> engine e f w = (Inl (JsError m), issue e w)"
  by (simp add: engine_def)

lemma reads_only_engine: "reads_only (engine e (\<lambda>ds. (f ds, ds)))"
  unfolding reads_only_def
proof
  fix w
  show "later w (snd (engine e (\<lambda>ds. (f ds, ds)) w))"
    by (cases "fault w") (simp_all add: engine_read_ok engine_fault later_def)
qed



subsection \<open>Settling several tasks\<close>

lemma first_rejection_member: "es \<noteq> [] \<Longrightarrow> first_rejection w es \<in> set es"
  by (simp add: first_rejection_def)

lemma first_rejection_same: "es \<noteq> [] \<Longrightarrow> \<forall>x\<in>set es. x = e \<Longrightarrow> first_rejection w es = e"
  using first_rejection_member[of es w] by blast

lemma first_rejection_one [simp]: "first_rejection w [e] = e"
  by (simp add: first_rejection_def)

lemma first_rejection_two [simp]: "first_rejection w [e, e] = e"
  by (rule first_rejection_same) simp_all

lemma rejected_Inr [simp]: "rejected (map Inr xs) = []"
  by (induction xs) simp_all

lemma fulfilled_Inr [simp]: "fulfilled (map Inr xs) = xs"
  by (induction xs) simp_all

lemma rejected_empty_iff: "(rejected rs = []) = (\<forall>r\<in>set rs. \<exists>x. r = Inr x)"
  by (induction rs rule: rejected.induct) auto

lemma rejected_set: "set (rejected rs) = {e. Inl e \<in> set rs}"
  by (induction rs rule: rejected.induct) auto

lemma fst_promise_all: "fst (promise_all ms w) = all_settled (snd (settle_all ms w)) (fst (settle_all ms w))"
  by (simp add: promise_all_def split: prod.splits)

lemma snd_promise_all: "snd (promise_all ms w) = snd (settle_all ms w)"
  by (simp add: promise_all_def split: prod.splits)

lemma settle_all_later:
  "(\<And>m. m \<in> set ms \<Longrightarrow> reads_only m) \<Longrightarrow> later w (snd (settle_all ms w))"
proof (induction ms arbitrary: w)
  case Nil
  then show ?case by (simp add: later_refl)
next
  case (Cons m ms)
  obtain r w1 where m: "m w = (r, w1)" by (cases "m w")
  have "reads_only m" using Cons.prems by simp
  then have 1: "later w w1" using m by (rule reads_only_later)
  have 2: "later w1 (snd (settle_all ms w1))" using Cons by simp
  show ?case using later_trans[OF 1 2] m by (auto split: prod.splits)
qed

lemma reads_only_promise_all:
  assumes "\<And>m. m \<in> set ms \<Longrightarrow> reads_only m"
  shows "reads_only (promise_all ms)"
  unfolding reads_only_def
proof
  fix w
  show "later w (snd (promise_all ms w))"
    using settle_all_later[of ms w] assms by (simp add: snd_promise_all)
qed










section \<open>Slug assignment when the source field is missing\<close>





















section \<open>What findAll computes\<close>

lemma settle_populate:
  "fault w = None \<Longrightarrow> fst (settle_all (map (applyPopulation svc) ds) w) = map Inr ds"
proof (induction ds arbitrary: w)
  case Nil
  then show ?case by simp
next
  case (Cons d ds)
  obtain r w1 where a: "applyPopulation svc d w = (r, w1)" by (cases "applyPopulation svc d w")
  have r: "r = Inr d" and f: "fault w1 = None"
    using a Cons.prems
    by (auto simp: applyPopulation_def return_def doc_populate_def engine_read_ok split: if_splits)
  show ?case using a r Cons.IH[OF f] by (auto split: prod.splits)
qed

lemma populate_all_value:
  "fault w = None \<Longrightarrow> fst (promise_all (map (applyPopulation svc) ds) w) = Inr ds"
  by (simp add: fst_promise_all settle_populate all_settled_def)

lemma reads_only_applyPopulation: "reads_only (applyPopulation svc d)"
  by (simp add: applyPopulation_def doc_populate_def reads_only_return reads_only_engine)

lemma reads_only_populate_all: "reads_only (promise_all (map (applyPopulation svc) ds))"
  by (rule reads_only_promise_all) (auto simp: reads_only_applyPopulation)

lemma findAll_getter_value:
  assumes "fault w = None"
  shows "fst (findAll_getter svc args w) =
    (case find_docs (visible (orElse (arg_includeDeleted args) False) (finalQuery svc args))
            (findAll_options svc args) (docs w) of
       Inl e \<Rightarrow> Inl e
     | Inr documents \<Rightarrow>
         Inr (Success
           (Some \<lparr>meta_total = length (filter (matches (visible (orElse (arg_includeDeleted args) False) [])) (docs w)),
                  meta_results = length (filter (matches (visible (orElse (arg_includeDeleted args) False) (finalQuery svc args))) (docs w)),
                  meta_paging =
                    (if orElse (arg_paginate args) True then
                       Some \<lparr>meta_page = finalPage svc args, meta_limit = finalLimit svc args,
                             meta_totalPages = Math_ceil_div (length (filter (matches (visible (orElse (arg_includeDeleted args) False) (finalQuery svc args))) (docs w))) (finalLimit svc args),
                             meta_remainingItems = max 0 (int (length (filter (matches (visible (orElse (arg_includeDeleted args) False) (finalQuery svc args))) (docs w))) - finalPage svc args * finalLimit svc args),
                             meta_pageItemsCount = length documents\<rparr>
                     else None)\<rparr>)
           (Many documents)))"
proof (cases "find_docs (visible (orElse (arg_includeDeleted args) False) (finalQuery svc args))
            (findAll_options svc args) (docs w)")
  case (Inl e)
  then show ?thesis using assms
    by (simp add: findAll_getter_def Let_def bind_def return_def repo_findAll_def repo_countDocuments_def
        model_find_def model_countDocuments_def engine_read_ok visible_def window_def no_options_def apply_limit_def
        promise_all_def all_settled_def first_rejection_def)
next
  case (Inr documents)
  show ?thesis
  proof (cases "orElse (arg_populate args) (defaultPopulate (populate (config svc)))")
    case True
    let ?w1 = "issue (OpCountDocuments (visible (orElse (arg_includeDeleted args) False) []) no_options)
       (issue (OpFind (visible (orElse (arg_includeDeleted args) False) (finalQuery svc args)) (findAll_options svc args)) w)"
    obtain rs w2 where p: "promise_all (map (applyPopulation svc) documents) ?w1 = (rs, w2)"
      by (cases "promise_all (map (applyPopulation svc) documents) ?w1")
    have f1: "fault ?w1 = None" using assms by simp
    have rs: "rs = Inr documents" using populate_all_value[OF f1, of svc documents] p by simp
    have d2: "docs w2 = docs w" "fault w2 = None" using reads_onlyD[OF reads_only_populate_all p] assms by simp_all
    show ?thesis using assms Inr True p rs d2
      by (simp add: findAll_getter_def Let_def bind_def return_def repo_findAll_def repo_countDocuments_def
        model_find_def model_countDocuments_def engine_read_ok visible_def window_def no_options_def apply_limit_def max_def
        promise_all_def all_settled_def first_rejection_def)
  next
    case False
    then show ?thesis using assms Inr
      by (simp add: findAll_getter_def Let_def bind_def return_def repo_findAll_def repo_countDocuments_def
        model_find_def model_countDocuments_def engine_read_ok visible_def window_def no_options_def apply_limit_def max_def
        promise_all_def all_settled_def first_rejection_def)
  qed
qed

lemma findAll_getter_fault:
  assumes "fault w = Some m"
  shows "fst (findAll_getter svc args w) = Inl (JsError m)"
  using assms
  by (simp add: findAll_getter_def Let_def bind_def return_def repo_findAll_def repo_countDocuments_def
        model_find_def model_countDocuments_def engine_fault promise_all_def all_settled_def)

lemma reads_only_repo_reads:
  "reads_only (repo_findAll q opts incl)" "reads_only (repo_countDocuments q opts incl)"
  "reads_only (repo_findOne q incl)" "reads_only (repo_findById i incl)"
  by (simp_all add: repo_findAll_def repo_countDocuments_def repo_findOne_def repo_findById_def
      model_find_def model_countDocuments_def model_findOne_def reads_only_engine)

lemma reads_only_findAll_getter: "reads_only (findAll_getter svc args)"
  unfolding findAll_getter_def Let_def
  by (intro reads_only_bind reads_only_promise_all reads_only_return)
     (auto simp: reads_only_populate_all reads_only_return reads_only_repo_reads intro!: reads_only_bind)

lemma engine_oplog: "oplog (snd (engine e f w)) = oplog w @ [e]"
  by (cases "fault w") (auto simp: engine_def split: prod.splits)

lemma later_oplog: "later w w' \<Longrightarrow> \<exists>rest. oplog w' = oplog w @ rest"
  by (simp add: later_def)

lemma bind_later:
  assumes "m w = (r, w1)" "\<And>x. reads_only (f x)"
  shows "later w1 (snd (bind m f w))"
proof (cases r)
  case (Inl e)
  then show ?thesis using assms(1) by (simp add: bind_def later_refl)
next
  case (Inr x)
  obtain r2 w2 where f: "f x w1 = (r2, w2)" by (cases "f x w1")
  then show ?thesis using assms(1) Inr reads_only_later[OF assms(2) f] by (simp add: bind_def)
qed

lemma promise_all_later:
  assumes "m w = (r, w1)" "\<And>x. x \<in> set ms \<Longrightarrow> reads_only x"
  shows "later w1 (snd (promise_all (m # ms) w))"
  using assms(1) settle_all_later[of ms w1] assms(2)
  by (auto simp: snd_promise_all split: prod.splits)

lemma findAll_getter_oplog:
  "\<exists>rest. oplog (snd (findAll_getter svc args w)) =
     oplog w @ OpFind (visible (orElse (arg_includeDeleted args) False) (finalQuery svc args))
                 (findAll_options svc args) # rest"
proof -
  let ?incl = "orElse (arg_includeDeleted args) False"
  let ?A = "bind (repo_findAll (finalQuery svc args) (findAll_options svc args) ?incl)
                 (\<lambda>ds. return (Inl ds :: doc list + nat))"
  let ?B = "bind (repo_countDocuments [] no_options ?incl) (\<lambda>n. return (Inr n :: doc list + nat))"
  obtain ra w1 where a: "?A w = (ra, w1)" by (cases "?A w")
  have o1: "oplog w1 = oplog w @ [OpFind (visible ?incl (finalQuery svc args)) (findAll_options svc args)]"
    using a engine_oplog[of "OpFind (visible ?incl (finalQuery svc args)) (findAll_options svc args)"
        "\<lambda>ds. (find_docs (visible ?incl (finalQuery svc args)) (findAll_options svc args) ds, ds)" w]
    by (auto simp: bind_def return_def repo_findAll_def model_find_def visible_def split: prod.splits sum.splits)
  have roB: "\<And>x. x \<in> set [?B] \<Longrightarrow> reads_only x"
    by (auto simp: reads_only_repo_reads reads_only_return intro!: reads_only_bind)
  obtain r2 w2 where p: "promise_all [?A, ?B] w = (r2, w2)" by (cases "promise_all [?A, ?B] w")
  have l12: "later w1 w2" using promise_all_later[of ?A w ra w1 "[?B]", OF a roB] p by simp
  have "later w2 (snd (findAll_getter svc args w))"
    unfolding findAll_getter_def Let_def
    by (rule bind_later[of "promise_all [?A, ?B]" w r2 w2, OF p])
       (auto simp: reads_only_populate_all reads_only_return reads_only_repo_reads
             intro!: reads_only_bind)
  then have "later w1 (snd (findAll_getter svc args w))" using l12 later_trans by blast
  then show ?thesis using o1 later_oplog by fastforce
qed

lemma getCachedData_miss:
  assumes "\<not> cache_hit svc key (c, w)"
  shows "getCachedData svc key getter (c, w) =
     (case getter w of
        (Inl e, w') \<Rightarrow> (Inl e, (c, w'))
      | (Inr v, w') \<Rightarrow>
          (Inr v, (if cache_enabled (caching (config svc))
                   then AList.update key \<lparr>entry_data = v, entry_timestamp = now w'\<rparr> c else c, w')))"
  using assms
  by (auto simp: getCachedData_def cache_hit_def split: option.splits prod.splits sum.splits)

lemma getCachedData_hit:
  assumes "cache_hit svc key (c, w)"
  shows "\<exists>cached. map_of c key = Some cached \<and> getCachedData svc key getter (c, w) = (Inr (entry_data cached), (c, w))"
  using assms
  by (auto simp: getCachedData_def cache_hit_def split: option.splits prod.splits sum.splits)

lemma findAll_miss:
  assumes "\<not> cache_hit svc (getCacheKey ''findAll'' (JSON args)) (c, w)"
  shows "fst (svc_findAll svc JSON args (c, w)) = fst (findAll_getter svc args w)"
    and "snd (snd (svc_findAll svc JSON args (c, w))) = snd (findAll_getter svc args w)"
  using getCachedData_miss[OF assms, of "findAll_getter svc args"]
  by (auto simp: svc_findAll_def split: prod.splits sum.splits)

lemma length_sort_by: "length (sort_by kd ds) = length ds"
  by (cases kd) (simp add: sort_by_def)

lemma length_sort_docs: "length (sort_docs spec ds) = length ds"
  by (induction spec) (simp_all add: sort_docs_def length_sort_by)

lemma Math_ceil_div_ceiling:
  assumes "b \<noteq> 0"
  shows "Math_ceil_div a b = Finite \<lceil>real a / real_of_int b\<rceil>"
proof -
  have "\<lceil>real_of_int (int a) / real_of_int b\<rceil> = - (- int a div b)"
    by (rule ceiling_divide_eq_div)
  then show ?thesis using assms by (simp add: Math_ceil_div_def)
qed

lemma find_docs_beyond:
  assumes "find_docs q opts ds = Inr xs" "opt_skip opts = Some k" "int (length (filter (matches q) ds)) \<le> k"
  shows "xs = []"
  using assms
  by (auto simp: find_docs_def window_def apply_limit_def length_sort_docs split: if_splits option.splits)


lemma matches_visible_nil: "matches (visible incl []) d = (incl \<or> live d)"
  by (simp add: visible_def not_deleted_def spread_def matches_def live_def)

lemma ceiling_le_mult:
  assumes "0 < l" "\<lceil>real n / real_of_int l\<rceil> \<le> p"
  shows "int n \<le> p * l"
proof -
  have "real n / real_of_int l \<le> real_of_int p" using assms(2) by (simp add: ceiling_le_iff)
  then have "real n \<le> real_of_int p * real_of_int l" using assms(1) by (simp add: pos_divide_le_eq)
  then have "real_of_int (int n) \<le> real_of_int (p * l)" by simp
  then show ?thesis by (simp only: of_int_le_iff)
qed

lemma findAll_getter_success:
  assumes "fst (findAll_getter svc args w) = Inr env"
  shows "fault w = None"
    and "\<exists>documents. find_docs (visible (orElse (arg_includeDeleted args) False) (finalQuery svc args))
            (findAll_options svc args) (docs w) = Inr documents
       \<and> env = Success
           (Some \<lparr>meta_total = length (filter (matches (visible (orElse (arg_includeDeleted args) False) [])) (docs w)),
                  meta_results = length (filter (matches (visible (orElse (arg_includeDeleted args) False) (finalQuery svc args))) (docs w)),
                  meta_paging =
                    (if orElse (arg_paginate args) True then
                       Some \<lparr>meta_page = finalPage svc args, meta_limit = finalLimit svc args,
                             meta_totalPages = Math_ceil_div (length (filter (matches (visible (orElse (arg_includeDeleted args) False) (finalQuery svc args))) (docs w))) (finalLimit svc args),
                             meta_remainingItems = max 0 (int (length (filter (matches (visible (orElse (arg_includeDeleted args) False) (finalQuery svc args))) (docs w))) - finalPage svc args * finalLimit svc args),
                             meta_pageItemsCount = length documents\<rparr>
                     else None)\<rparr>)
           (Many documents)"
proof -
  show f: "fault w = None"
  proof (cases "fault w")
    case (Some m)
    then show ?thesis using findAll_getter_fault[OF Some, of svc args] assms by simp
  qed simp
  show "\<exists>documents. find_docs (visible (orElse (arg_includeDeleted args) False) (finalQuery svc args))
            (findAll_options svc args) (docs w) = Inr documents
       \<and> env = Success
           (Some \<lparr>meta_total = length (filter (matches (visible (orElse (arg_includeDeleted args) False) [])) (docs w)),
                  meta_results = length (filter (matches (visible (orElse (arg_includeDeleted args) False) (finalQuery svc args))) (docs w)),
                  meta_paging =
                    (if orElse (arg_paginate args) True then
                       Some \<lparr>meta_page = finalPage svc args, meta_limit = finalLimit svc args,
                             meta_totalPages = Math_ceil_div (length (filter (matches (visible (orElse (arg_includeDeleted args) False) (finalQuery svc args))) (docs w))) (finalLimit svc args),
                             meta_remainingItems = max 0 (int (length (filter (matches (visible (orElse (arg_includeDeleted args) False) (finalQuery svc args))) (docs w))) - finalPage svc args * finalLimit svc args),
                             meta_pageItemsCount = length documents\<rparr>
                     else None)\<rparr>)
           (Many documents)"
    using findAll_getter_value[OF f, of svc args] assms
    by (cases "find_docs (visible (orElse (arg_includeDeleted args) False) (finalQuery svc args))
            (findAll_options svc args) (docs w)") auto
qed

text \<open>
  Claim C7, amended. A paginated \<open>findAll\<close> that computes its result (caching disabled, or
  no unexpired entry) with an effective limit of at least 1 returns metadata where the
  page is the requested or default page raised to at least 1, the limit is the requested
  or default limit lowered to at most \<open>maxLimit\<close>, \<open>total\<close> counts the visible records,
  \<open>results\<close> counts the visible records matching the query, \<open>totalPages\<close> is the ceiling
  of \<open>results / limit\<close>, and \<open>remainingItems\<close> is \<open>max 0 (results - page * limit)\<close>: it is
  0 from page \<open>totalPages\<close> on, and a page beyond \<open>totalPages\<close> has no documents.
\<close>

theorem findAll_pagination_meta:
  assumes miss: "\<not> cache_hit svc (getCacheKey ''findAll'' (JSON args)) (c, w)"
    and pag: "orElse (arg_paginate args) True"
    and lim: "1 \<le> finalLimit svc args"
    and res: "fst (svc_findAll svc JSON args (c, w)) = Inr env"
  shows "\<exists>m pm ds. env = Success (Some m) (Many ds) \<and> meta_paging m = Some pm
      \<and> meta_page pm = max 1 (orElse (arg_page args) (defaultPage (pagination (config svc))))
      \<and> 1 \<le> meta_page pm
      \<and> meta_limit pm = min (maxLimit (pagination (config svc)))
                           (orElse (arg_limit args) (defaultLimit (pagination (config svc))))
      \<and> meta_limit pm \<le> maxLimit (pagination (config svc))
      \<and> meta_total m = length (filter (\<lambda>d. orElse (arg_includeDeleted args) False \<or> live d) (docs w))
      \<and> meta_results m = length (filter (matches (visible (orElse (arg_includeDeleted args) False) (finalQuery svc args))) (docs w))
      \<and> meta_totalPages pm = Finite \<lceil>real (meta_results m) / real_of_int (meta_limit pm)\<rceil>
      \<and> meta_remainingItems pm = max 0 (int (meta_results m) - meta_page pm * meta_limit pm)
      \<and> meta_pageItemsCount pm = length ds
      \<and> (\<lceil>real (meta_results m) / real_of_int (meta_limit pm)\<rceil> \<le> meta_page pm \<longrightarrow> meta_remainingItems pm = 0)
      \<and> (\<lceil>real (meta_results m) / real_of_int (meta_limit pm)\<rceil> < meta_page pm \<longrightarrow>
            ds = [] \<and> meta_remainingItems pm = 0)"
proof -
  let ?incl = "orElse (arg_includeDeleted args) False"
  let ?n = "length (filter (matches (visible ?incl (finalQuery svc args))) (docs w))"
  let ?p = "finalPage svc args"
  let ?l = "finalLimit svc args"
  have g: "fst (findAll_getter svc args w) = Inr env" using findAll_miss(1)[where JSON=JSON and args=args, OF miss] res by simp
  obtain documents where
    fd: "find_docs (visible ?incl (finalQuery svc args)) (findAll_options svc args) (docs w) = Inr documents"
    and env: "env = Success
           (Some \<lparr>meta_total = length (filter (matches (visible ?incl [])) (docs w)),
                  meta_results = ?n,
                  meta_paging =
                       Some \<lparr>meta_page = ?p, meta_limit = ?l,
                             meta_totalPages = Math_ceil_div ?n ?l,
                             meta_remainingItems = max 0 (int ?n - ?p * ?l),
                             meta_pageItemsCount = length documents\<rparr>\<rparr>)
           (Many documents)"
    using findAll_getter_success(2)[OF g] pag by auto
  have tp: "Math_ceil_div ?n ?l = Finite \<lceil>real ?n / real_of_int ?l\<rceil>"
    using lim by (intro Math_ceil_div_ceiling) simp
  have sk: "opt_skip (findAll_options svc args) = Some ((?p - 1) * ?l)"
    using pag by (simp add: findAll_options_def Let_def)
  have r0: "\<lceil>real ?n / real_of_int ?l\<rceil> \<le> ?p \<longrightarrow> max 0 (int ?n - ?p * ?l) = 0"
    using ceiling_le_mult[of ?l ?n ?p] lim by auto
  have e0: "\<lceil>real ?n / real_of_int ?l\<rceil> < ?p \<longrightarrow> documents = []"
  proof
    assume "\<lceil>real ?n / real_of_int ?l\<rceil> < ?p"
    then have "\<lceil>real ?n / real_of_int ?l\<rceil> \<le> ?p - 1" by simp
    then have "int ?n \<le> (?p - 1) * ?l" using ceiling_le_mult[of ?l ?n "?p - 1"] lim by simp
    then show "documents = []" using find_docs_beyond[OF fd sk] by simp
  qed
  have tot: "length (filter (matches (visible ?incl [])) (docs w))
      = length (filter (\<lambda>d. ?incl \<or> live d) (docs w))"
    by (rule arg_cong[where f=length], rule filter_cong) (simp_all add: matches_visible_nil)
  have pg: "?p = max 1 (orElse (arg_page args) (defaultPage (pagination (config svc))))" "1 \<le> ?p"
    by (simp_all add: finalPage_def)
  have lm: "?l = min (maxLimit (pagination (config svc)))
                           (orElse (arg_limit args) (defaultLimit (pagination (config svc))))"
    "?l \<le> maxLimit (pagination (config svc))"
    by (simp_all add: finalLimit_def)
  let ?pm = "\<lparr>meta_page = ?p, meta_limit = ?l,
                             meta_totalPages = Math_ceil_div ?n ?l,
                             meta_remainingItems = max 0 (int ?n - ?p * ?l),
                             meta_pageItemsCount = length documents\<rparr>"
  let ?m = "\<lparr>meta_total = length (filter (matches (visible ?incl [])) (docs w)),
                  meta_results = ?n, meta_paging = Some ?pm\<rparr>"
  have "env = Success (Some ?m) (Many documents) \<and> meta_paging ?m = Some ?pm
      \<and> meta_page ?pm = max 1 (orElse (arg_page args) (defaultPage (pagination (config svc))))
      \<and> 1 \<le> meta_page ?pm
      \<and> meta_limit ?pm = min (maxLimit (pagination (config svc)))
                           (orElse (arg_limit args) (defaultLimit (pagination (config svc))))
      \<and> meta_limit ?pm \<le> maxLimit (pagination (config svc))
      \<and> meta_total ?m = length (filter (\<lambda>d. orElse (arg_includeDeleted args) False \<or> live d) (docs w))
      \<and> meta_results ?m = length (filter (matches (visible (orElse (arg_includeDeleted args) False) (finalQuery svc args))) (docs w))
      \<and> meta_totalPages ?pm = Finite \<lceil>real (meta_results ?m) / real_of_int (meta_limit ?pm)\<rceil>
      \<and> meta_remainingItems ?pm = max 0 (int (meta_results ?m) - meta_page ?pm * meta_limit ?pm)
      \<and> meta_pageItemsCount ?pm = length documents
      \<and> (\<lceil>real (meta_results ?m) / real_of_int (meta_limit ?pm)\<rceil> \<le> meta_page ?pm \<longrightarrow> meta_remainingItems ?pm = 0)
      \<and> (\<lceil>real (meta_results ?m) / real_of_int (meta_limit ?pm)\<rceil> < meta_page ?pm \<longrightarrow>
            documents = [] \<and> meta_remainingItems ?pm = 0)"
    using env tp r0 e0 tot pg lm by simp
  then show ?thesis by blast
qed

theorem findAll_pagination_meta_witness:
  "(\<exists>m pm ds. fst (svc_findAll plain_service page_limit_json (page_args 2 2) ([], collection three))
        = Inr (Success (Some m) (Many ds))
      \<and> meta_paging m = Some pm \<and> meta_page pm = 2 \<and> meta_limit pm = 2
      \<and> meta_results m = 3 \<and> meta_totalPages pm = Finite 2 \<and> meta_remainingItems pm = 0)
   \<and> (\<exists>m pm. fst (svc_findAll plain_service page_limit_json (page_args 3 2) ([], collection three))
        = Inr (Success (Some m) (Many []))
      \<and> meta_paging m = Some pm \<and> meta_page pm = 3 \<and> meta_totalPages pm = Finite 2
      \<and> meta_remainingItems pm = 0)"
proof -
  have miss: "\<not> cache_hit plain_service k ([], collection three)" for k
    by (simp add: cache_hit_def)
  have pag: "orElse (arg_paginate (page_args p l)) True" for p l
    by (simp add: page_args_def no_args_def args_defs orElse_def)
  have lim: "1 \<le> finalLimit plain_service (page_args p 2)" for p
    by (simp add: finalLimit_def page_args_def no_args_def args_defs orElse_def plain_service_def defaultConfig_def)
  have pgv: "max 1 (orElse (arg_page (page_args p 2)) (defaultPage (pagination (config plain_service)))) = max 1 p"
    and lmv: "min (maxLimit (pagination (config plain_service)))
         (orElse (arg_limit (page_args p 2)) (defaultLimit (pagination (config plain_service)))) = 2" for p
    by (simp_all add: page_args_def no_args_def args_defs orElse_def plain_service_def defaultConfig_def)
  have n: "length (filter (matches (visible (orElse (arg_includeDeleted (page_args p l)) False)
              (finalQuery plain_service (page_args p l)))) (docs (collection three))) = 3" for p l
    by (simp add: visible_def finalQuery_def filterAllowedFields_def buildSearchQuery_def orElse_def
        repo_defs engine_defs example_defs)
  have c2: "\<lceil>real 3 / real_of_int 2\<rceil> = (2::int)" by (simp add: ceiling_eq_iff)
  obtain e2 where e2: "fst (svc_findAll plain_service page_limit_json (page_args 2 2) ([], collection three)) = Inr e2"
    by (simp add: findAll_defs helper_defs repo_defs engine_defs example_defs)
  obtain e3 where e3: "fst (svc_findAll plain_service page_limit_json (page_args 3 2) ([], collection three)) = Inr e3"
    by (simp add: findAll_defs helper_defs repo_defs engine_defs example_defs)
  note T2 = findAll_pagination_meta[OF miss pag lim e2, unfolded pgv lmv n]
  note T3 = findAll_pagination_meta[OF miss pag lim e3, unfolded pgv lmv n]
  have A: "\<exists>m pm ds. e2 = Success (Some m) (Many ds)
      \<and> meta_paging m = Some pm \<and> meta_page pm = 2 \<and> meta_limit pm = 2
      \<and> meta_results m = 3 \<and> meta_totalPages pm = Finite 2 \<and> meta_remainingItems pm = 0"
  proof -
    from T2 obtain m pm ds where "e2 = Success (Some m) (Many ds)" "meta_paging m = Some pm"
      "meta_page pm = max 1 2" "meta_limit pm = 2" "meta_results m = 3"
      "meta_totalPages pm = Finite \<lceil>real (meta_results m) / real_of_int (meta_limit pm)\<rceil>"
      "\<lceil>real (meta_results m) / real_of_int (meta_limit pm)\<rceil> \<le> meta_page pm \<longrightarrow> meta_remainingItems pm = 0"
      by (elim exE conjE) (rule that)
    then show ?thesis using c2 by (intro exI[of _ m] exI[of _ pm] exI[of _ ds]) simp
  qed
  have B: "\<exists>m pm. e3 = Success (Some m) (Many [])
      \<and> meta_paging m = Some pm \<and> meta_page pm = 3 \<and> meta_totalPages pm = Finite 2
      \<and> meta_remainingItems pm = 0"
  proof -
    from T3 obtain m pm ds where "e3 = Success (Some m) (Many ds)" "meta_paging m = Some pm"
      "meta_page pm = max 1 3" "meta_limit pm = 2" "meta_results m = 3"
      "meta_totalPages pm = Finite \<lceil>real (meta_results m) / real_of_int (meta_limit pm)\<rceil>"
      "\<lceil>real (meta_results m) / real_of_int (meta_limit pm)\<rceil> < meta_page pm \<longrightarrow>
          ds = [] \<and> meta_remainingItems pm = 0"
      by (elim exE conjE) (rule that)
    then show ?thesis using c2 by (intro exI[of _ m] exI[of _ pm]) simp
  qed
  show ?thesis using A B e2 e3 by simp
qed


text \<open>
  Claim C7, as the specification states it, for every successful paginated \<open>findAll\<close>: from
  page \<open>ceil(N/L)\<close> on there are no remaining items, and beyond it no documents. With three
  records and limit \<open>-1\<close> the ceiling is \<open>-3\<close>; page 1 lies beyond it, and the call returns
  one document and 4 remaining items.
\<close>

theorem findAll_negative_limit_remaining:
  "arg_limit (page_args 1 (- 1)) = Some (- 1)
   \<and> fst (svc_findAll plain_service page_limit_json (page_args 1 (- 1)) ([], collection three))
     = Inr (Success
              (Some \<lparr>meta_total = 3, meta_results = 3,
                     meta_paging = Some \<lparr>meta_page = 1, meta_limit = - 1, meta_totalPages = Finite (- 3),
                                          meta_remainingItems = 4, meta_pageItemsCount = 1\<rparr>\<rparr>)
              (Many [[(''_id'', VId 1)]]))
   \<and> \<lceil>real 3 / real_of_int (- 1)\<rceil> < (1::int)"
  by (simp add: findAll_defs helper_defs repo_defs engine_defs example_defs)

section \<open>The limit has no lower bound\<close>





section \<open>The cache\<close>

lemma getCachedData_other_entry:
  assumes "key \<noteq> k"
  shows "fst (getCachedData svc key getter (AList.update k e c, w)) = fst (getCachedData svc key getter (c, w))"
    and "snd (snd (getCachedData svc key getter (AList.update k e c, w)))
           = snd (snd (getCachedData svc key getter (c, w)))"
  using assms
  by (auto simp: getCachedData_def update_conv' split: option.splits prod.splits sum.splits)

lemma findAll_key: "getCacheKey ''findAll'' j = ''findAll:'' @ j"
  by (simp add: getCacheKey_def)

lemma findAll_key_inj: "(getCacheKey ''findAll'' a = getCacheKey ''findAll'' b) = (a = b)"
  by (simp add: getCacheKey_def)

lemma findOne_key_other: "getCacheKey ''findOne'' a \<noteq> getCacheKey ''findAll'' b"
  by (simp add: getCacheKey_def)

text \<open>
  Claim C8, as the specification states it: with caching enabled, two \<open>findAll\<close> calls with
  the same arguments less than \<open>T\<close> seconds apart reach the persistence layer once. The
  entry is stored only after the computation of the first call has ended with a value.
  Here \<open>T\<close> is 300 seconds and no time passes at all. In the first run, the second call
  starts when the first has sent its two queries and waits for the answers: the cache is
  still empty, and the second call sends the queries again. In the second run, the first
  call fails on the engine and stores nothing; the second call, the engine being back,
  sends the queries again.
\<close>

theorem findAll_twice_within_ttl_queries_twice:
  "cache_enabled (caching (config cached_service)) \<and> ttl (caching (config cached_service)) = 300
   \<and> oplog (snd (repo_countDocuments [] no_options False
              (snd (repo_findAll (finalQuery cached_service no_args) (findAll_options cached_service no_args)
                      False (collection three)))))
       = [OpFind [(''deletedAt'', Is (Eq VNull))]
            \<lparr>opt_sort = [(''createdAt'', - 1)], opt_skip = Some 0, opt_limit = Some 10\<rparr>,
          OpCountDocuments [(''deletedAt'', Is (Eq VNull))] no_options]
   \<and> oplog (snd (snd (svc_findAll cached_service page_limit_json no_args
        ([], snd (repo_countDocuments [] no_options False
                    (snd (repo_findAll (finalQuery cached_service no_args)
                            (findAll_options cached_service no_args) False (collection three))))))))
       = [OpFind [(''deletedAt'', Is (Eq VNull))]
            \<lparr>opt_sort = [(''createdAt'', - 1)], opt_skip = Some 0, opt_limit = Some 10\<rparr>,
          OpCountDocuments [(''deletedAt'', Is (Eq VNull))] no_options,
          OpFind [(''deletedAt'', Is (Eq VNull))]
            \<lparr>opt_sort = [(''createdAt'', - 1)], opt_skip = Some 0, opt_limit = Some 10\<rparr>,
          OpCountDocuments [(''deletedAt'', Is (Eq VNull))] no_options,
          OpCountDocuments [(''deletedAt'', Is (Eq VNull))] no_options]
   \<and> fst (svc_findAll cached_service page_limit_json no_args
             ([], (collection three)\<lparr>fault := Some ''connection lost''\<rparr>))
       = Inl (JsError ''connection lost'')
   \<and> fst (snd (svc_findAll cached_service page_limit_json no_args
                  ([], (collection three)\<lparr>fault := Some ''connection lost''\<rparr>))) = []
   \<and> oplog (snd (snd (svc_findAll cached_service page_limit_json no_args
                         ([], (collection three)\<lparr>fault := Some ''connection lost''\<rparr>))))
       = [OpFind [(''deletedAt'', Is (Eq VNull))]
            \<lparr>opt_sort = [(''createdAt'', - 1)], opt_skip = Some 0, opt_limit = Some 10\<rparr>,
          OpCountDocuments [(''deletedAt'', Is (Eq VNull))] no_options]
   \<and> oplog (snd (snd (svc_findAll cached_service page_limit_json no_args
        ([], (snd (snd (svc_findAll cached_service page_limit_json no_args
                          ([], (collection three)\<lparr>fault := Some ''connection lost''\<rparr>))))
               \<lparr>fault := None\<rparr>))))
       = [OpFind [(''deletedAt'', Is (Eq VNull))]
            \<lparr>opt_sort = [(''createdAt'', - 1)], opt_skip = Some 0, opt_limit = Some 10\<rparr>,
          OpCountDocuments [(''deletedAt'', Is (Eq VNull))] no_options,
          OpFind [(''deletedAt'', Is (Eq VNull))]
            \<lparr>opt_sort = [(''createdAt'', - 1)], opt_skip = Some 0, opt_limit = Some 10\<rparr>,
          OpCountDocuments [(''deletedAt'', Is (Eq VNull))] no_options,
          OpCountDocuments [(''deletedAt'', Is (Eq VNull))] no_options]
   \<and> clock (snd (snd (svc_findAll cached_service page_limit_json no_args
                         ([], (collection three)\<lparr>fault := Some ''connection lost''\<rparr>))))
       = clock (collection three)"
  by (simp add: findAll_defs helper_defs repo_defs engine_defs example_defs)

text \<open>
  Claim C8, amended. With caching enabled and time-to-live \<open>T\<close> seconds, take a \<open>findAll\<close>
  call that finds no unexpired entry under its key and returns a value. It ran the
  computation against the persistence layer, and stored the value under the key
  \<open>findAll:\<close> followed by the serialised argument, stamped with the time at which the
  computation ended. A later call whose argument has the same serialisation, made while
  \<open>now - timestamp < T\<close> (in particular, after the first call has ended and less than \<open>T\<close>
  seconds after it was made) returns that value and leaves the world, and so the log of
  engine calls, as it was. Once \<open>now - timestamp \<ge> T\<close>, the same call runs the computation
  again, sends the query to the engine again, and stores the new value with a new
  timestamp. The entry answers no other call: a \<open>findAll\<close> whose argument has another
  serialisation, and every \<open>findOne\<close>, goes on as if the entry were not there.
\<close>

theorem findAll_cache_ttl:
  assumes en: "cache_enabled (caching (config svc))"
    and miss: "\<not> cache_hit svc (getCacheKey ''findAll'' (JSON args)) (c0, w0)"
    and first: "svc_findAll svc JSON args (c0, w0) = (Inr v, (c1, w1))"
  shows "findAll_getter svc args w0 = (Inr v, w1)
     \<and> (\<exists>rest. oplog w1 = oplog w0 @ OpFind (visible (orElse (arg_includeDeleted args) False) (finalQuery svc args))
                     (findAll_options svc args) # rest)
     \<and> c1 = AList.update (''findAll:'' @ JSON args) \<lparr>entry_data = v, entry_timestamp = clock w1\<rparr> c0
     \<and> map_of c1 (''findAll:'' @ JSON args) = Some \<lparr>entry_data = v, entry_timestamp = clock w1\<rparr>
     \<and> (\<forall>args2 w2. JSON args2 = JSON args
            \<and> int (clock w2) - int (clock w1) < ttl (caching (config svc)) * 1000 \<longrightarrow>
            svc_findAll svc JSON args2 (c1, w2) = (Inr v, (c1, w2)))
     \<and> (\<forall>args2 w2. JSON args2 = JSON args \<and> clock w1 \<le> clock w2
            \<and> int (clock w2) - int (clock w0) < ttl (caching (config svc)) * 1000 \<longrightarrow>
            svc_findAll svc JSON args2 (c1, w2) = (Inr v, (c1, w2)))
     \<and> (\<forall>w2. ttl (caching (config svc)) * 1000 \<le> int (clock w2) - int (clock w1) \<longrightarrow>
            svc_findAll svc JSON args (c1, w2) =
              (case findAll_getter svc args w2 of
                 (Inl e, w3) \<Rightarrow> (Inl e, (c1, w3))
               | (Inr v', w3) \<Rightarrow>
                   (Inr v', (AList.update (''findAll:'' @ JSON args)
                               \<lparr>entry_data = v', entry_timestamp = clock w3\<rparr> c1, w3)))
            \<and> (\<exists>rest. oplog (snd (snd (svc_findAll svc JSON args (c1, w2)))) =
                   oplog w2 @ OpFind (visible (orElse (arg_includeDeleted args) False) (finalQuery svc args))
                     (findAll_options svc args) # rest))
     \<and> (\<forall>args2 w2. JSON args2 \<noteq> JSON args \<longrightarrow>
            fst (svc_findAll svc JSON args2 (c1, w2)) = fst (svc_findAll svc JSON args2 (c0, w2))
            \<and> snd (snd (svc_findAll svc JSON args2 (c1, w2))) = snd (snd (svc_findAll svc JSON args2 (c0, w2))))
     \<and> (\<forall>JSON_query q p incl w2.
            fst (svc_findOne svc JSON_query q p incl (c1, w2)) = fst (svc_findOne svc JSON_query q p incl (c0, w2))
            \<and> snd (snd (svc_findOne svc JSON_query q p incl (c1, w2)))
                = snd (snd (svc_findOne svc JSON_query q p incl (c0, w2))))"
proof -
  let ?key = "getCacheKey ''findAll'' (JSON args)"
  have k: "?key = ''findAll:'' @ JSON args" by (rule findAll_key)
  have g: "findAll_getter svc args w0 = (Inr v, w1)"
    and c1: "c1 = AList.update ?key \<lparr>entry_data = v, entry_timestamp = clock w1\<rparr> c0"
    using getCachedData_miss[OF miss, of "findAll_getter svc args"] first en
    by (auto simp: svc_findAll_def now_def split: prod.splits sum.splits)
  have o: "\<exists>rest. oplog w1 = oplog w0 @ OpFind (visible (orElse (arg_includeDeleted args) False) (finalQuery svc args))
                     (findAll_options svc args) # rest"
    using findAll_getter_oplog[of svc args w0] g by simp
  have m: "map_of c1 ?key = Some \<lparr>entry_data = v, entry_timestamp = clock w1\<rparr>"
    using c1 by (simp add: update_conv')
  have mono: "clock w0 \<le> clock w1"
    using reads_only_later[OF reads_only_findAll_getter g] by (simp add: later_def)
  have hit: "svc_findAll svc JSON args2 (c1, w2) = (Inr v, (c1, w2))"
    if "JSON args2 = JSON args \<and> int (clock w2) - int (clock w1) < ttl (caching (config svc)) * 1000"
    for args2 w2
    using that en m by (simp add: svc_findAll_def getCachedData_def now_def)
  have hit2: "svc_findAll svc JSON args2 (c1, w2) = (Inr v, (c1, w2))"
    if "JSON args2 = JSON args \<and> clock w1 \<le> clock w2
          \<and> int (clock w2) - int (clock w0) < ttl (caching (config svc)) * 1000" for args2 w2
  proof -
    have "int (clock w2) - int (clock w1) < ttl (caching (config svc)) * 1000"
      using that mono by linarith
    then show ?thesis using that hit by blast
  qed
  have expired: "svc_findAll svc JSON args (c1, w2) =
              (case findAll_getter svc args w2 of
                 (Inl e, w3) \<Rightarrow> (Inl e, (c1, w3))
               | (Inr v', w3) \<Rightarrow>
                   (Inr v', (AList.update (''findAll:'' @ JSON args)
                               \<lparr>entry_data = v', entry_timestamp = clock w3\<rparr> c1, w3)))
            \<and> (\<exists>rest. oplog (snd (snd (svc_findAll svc JSON args (c1, w2)))) =
                   oplog w2 @ OpFind (visible (orElse (arg_includeDeleted args) False) (finalQuery svc args))
                     (findAll_options svc args) # rest)"
    if "ttl (caching (config svc)) * 1000 \<le> int (clock w2) - int (clock w1)" for w2
  proof -
    have nh: "\<not> cache_hit svc ?key (c1, w2)"
      using that m by (simp add: cache_hit_def now_def)
    have 1: "svc_findAll svc JSON args (c1, w2) =
              (case findAll_getter svc args w2 of
                 (Inl e, w3) \<Rightarrow> (Inl e, (c1, w3))
               | (Inr v', w3) \<Rightarrow>
                   (Inr v', (AList.update (''findAll:'' @ JSON args)
                               \<lparr>entry_data = v', entry_timestamp = clock w3\<rparr> c1, w3)))"
      using getCachedData_miss[OF nh, of "findAll_getter svc args"] en
      by (simp add: svc_findAll_def now_def k split: prod.splits sum.splits)
    have 2: "\<exists>rest. oplog (snd (snd (svc_findAll svc JSON args (c1, w2)))) =
                   oplog w2 @ OpFind (visible (orElse (arg_includeDeleted args) False) (finalQuery svc args))
                     (findAll_options svc args) # rest"
      using findAll_getter_oplog[of svc args w2] findAll_miss(2)[where JSON=JSON and args=args, OF nh] by simp
    show ?thesis using 1 2 by (rule conjI)
  qed
  have other: "fst (svc_findAll svc JSON args2 (c1, w2)) = fst (svc_findAll svc JSON args2 (c0, w2))
            \<and> snd (snd (svc_findAll svc JSON args2 (c1, w2))) = snd (snd (svc_findAll svc JSON args2 (c0, w2)))"
    if "JSON args2 \<noteq> JSON args" for args2 w2
  proof -
    have ne: "getCacheKey ''findAll'' (JSON args2) \<noteq> ?key"
      using that by (simp add: findAll_key_inj)
    show ?thesis
      unfolding svc_findAll_def c1
      using getCachedData_other_entry[OF ne] by blast
  qed
  have one: "fst (svc_findOne svc JSON_query q p incl (c1, w2)) = fst (svc_findOne svc JSON_query q p incl (c0, w2))
            \<and> snd (snd (svc_findOne svc JSON_query q p incl (c1, w2)))
                = snd (snd (svc_findOne svc JSON_query q p incl (c0, w2)))"
    for JSON_query q p incl w2
    unfolding svc_findOne_def c1
    using getCachedData_other_entry[OF findOne_key_other] by blast
  show ?thesis
    using g o c1[unfolded k] m[unfolded k] hit hit2 expired other one
    by (intro conjI allI impI) blast+
qed

theorem findAll_cache_ttl_witness:
  "\<exists>v c1 w1. svc_findAll cached_service page_limit_json (page_args 1 2)
                 ([], (collection three)\<lparr>latency := 5\<rparr>) = (Inr v, (c1, w1))
      \<and> clock w1 = 1015 \<and> length (oplog w1) = 3
      \<and> c1 = [(''findAll:'' @ page_limit_json (page_args 1 2), \<lparr>entry_data = v, entry_timestamp = 1015\<rparr>)]
      \<and> svc_findAll cached_service page_limit_json (page_args 1 2) (c1, w1\<lparr>clock := 300000, docs := []\<rparr>)
            = (Inr v, (c1, w1\<lparr>clock := 300000, docs := []\<rparr>))
      \<and> (\<exists>rest. oplog (snd (snd (svc_findAll cached_service page_limit_json (page_args 1 2)
                                      (c1, w1\<lparr>clock := 301015\<rparr>))))
            = oplog w1 @ OpFind [(''deletedAt'', Is (Eq VNull))]
                \<lparr>opt_sort = [(''createdAt'', - 1)], opt_skip = Some 0, opt_limit = Some 2\<rparr> # rest)
      \<and> page_limit_json (page_args 2 2) \<noteq> page_limit_json (page_args 1 2)
      \<and> fst (svc_findAll cached_service page_limit_json (page_args 2 2) (c1, w1))
           = fst (svc_findAll cached_service page_limit_json (page_args 2 2) ([], w1))
      \<and> snd (snd (svc_findAll cached_service page_limit_json (page_args 2 2) (c1, w1)))
           = snd (snd (svc_findAll cached_service page_limit_json (page_args 2 2) ([], w1)))"
proof -
  let ?w0 = "(collection three)\<lparr>latency := 5\<rparr>"
  let ?a = "page_args 1 2"
  have en: "cache_enabled (caching (config cached_service))"
    and tt: "ttl (caching (config cached_service)) = 300"
    by (simp_all add: example_defs)
  have miss: "\<not> cache_hit cached_service (getCacheKey ''findAll'' (page_limit_json ?a)) ([], ?w0)"
    by (simp add: cache_hit_def)
  obtain v c1 w1 where first: "svc_findAll cached_service page_limit_json ?a ([], ?w0) = (Inr v, (c1, w1))"
    by (simp add: findAll_defs helper_defs repo_defs engine_defs example_defs)
  have w1: "clock w1 = 1015" "length (oplog w1) = 3"
    using first by (auto simp add: findAll_defs helper_defs repo_defs engine_defs example_defs)
  have q: "visible (orElse (arg_includeDeleted ?a) False) (finalQuery cached_service ?a)
      = [(''deletedAt'', Is (Eq VNull))]"
    "findAll_options cached_service ?a
      = \<lparr>opt_sort = [(''createdAt'', - 1)], opt_skip = Some 0, opt_limit = Some 2\<rparr>"
    by (simp_all add: visible_def finalQuery_def finalPage_def finalLimit_def findAll_options_def
        filterAllowedFields_def buildSearchQuery_def orElse_def
        not_deleted_def spread_def example_defs)
  have ne: "page_limit_json (page_args 2 2) \<noteq> page_limit_json ?a"
    by (simp add: page_limit_json_def page_args_def map_filter_simps string_of_int_def
        string_of_nat.simps digit_char_def)
  note T = findAll_cache_ttl[where JSON=page_limit_json and args="?a", OF en miss first, unfolded tt w1 q]
  have a: "c1 = [(''findAll:'' @ page_limit_json ?a, \<lparr>entry_data = v, entry_timestamp = 1015\<rparr>)]"
    using T[THEN conjunct2, THEN conjunct2, THEN conjunct1] by simp
  have b: "svc_findAll cached_service page_limit_json ?a (c1, w1\<lparr>clock := 300000, docs := []\<rparr>)
            = (Inr v, (c1, w1\<lparr>clock := 300000, docs := []\<rparr>))"
    using T[THEN conjunct2, THEN conjunct2, THEN conjunct2, THEN conjunct2, THEN conjunct1, rule_format,
        of ?a "w1\<lparr>clock := 300000, docs := []\<rparr>"] by simp
  have c: "\<exists>rest. oplog (snd (snd (svc_findAll cached_service page_limit_json ?a (c1, w1\<lparr>clock := 301015\<rparr>))))
            = oplog w1 @ OpFind [(''deletedAt'', Is (Eq VNull))]
                \<lparr>opt_sort = [(''createdAt'', - 1)], opt_skip = Some 0, opt_limit = Some 2\<rparr> # rest"
  proof -
    have cc: "300 * 1000 \<le> int (clock (w1\<lparr>clock := 301015\<rparr>)) - int 1015" by simp
    show ?thesis
      using T[THEN conjunct2, THEN conjunct2, THEN conjunct2, THEN conjunct2, THEN conjunct2, THEN conjunct2,
        THEN conjunct1, rule_format, of "w1\<lparr>clock := 301015\<rparr>", OF cc, THEN conjunct2] by simp
  qed
  have d: "fst (svc_findAll cached_service page_limit_json (page_args 2 2) (c1, w1))
           = fst (svc_findAll cached_service page_limit_json (page_args 2 2) ([], w1))
      \<and> snd (snd (svc_findAll cached_service page_limit_json (page_args 2 2) (c1, w1)))
           = snd (snd (svc_findAll cached_service page_limit_json (page_args 2 2) ([], w1)))"
    using T[THEN conjunct2, THEN conjunct2, THEN conjunct2, THEN conjunct2, THEN conjunct2, THEN conjunct2,
        THEN conjunct2, THEN conjunct1, rule_format, of "page_args 2 2" w1, OF ne] .
  show ?thesis using first w1 a b c d ne by blast
qed

section \<open>Soft-deleted records in the repository\<close>

lemma update_member: "(k, v) \<in> set (AList.update k v al)"
  by (induction al) auto

lemma matches_not_deleted: "matches (not_deleted q) d \<Longrightarrow> live d"
proof -
  assume m: "matches (not_deleted q) d"
  have "(''deletedAt'', Is (Eq VNull)) \<in> set (not_deleted q)"
    by (simp add: not_deleted_def spread_def update_member)
  moreover have "\<forall>x\<in>set (not_deleted q). sat d x"
    using m by (simp add: matches_def list_all_iff)
  ultimately have "sat d (''deletedAt'', Is (Eq VNull))" by blast
  then show "live d" by (simp add: live_def)
qed

lemma matches_only_deleted: "matches (spread q [(''deletedAt'', Is (Ne VNull))]) d \<Longrightarrow> \<not> live d"
proof -
  assume m: "matches (spread q [(''deletedAt'', Is (Ne VNull))]) d"
  have "(''deletedAt'', Is (Ne VNull)) \<in> set (spread q [(''deletedAt'', Is (Ne VNull))])"
    by (simp add: spread_def update_member)
  moreover have "\<forall>x\<in>set (spread q [(''deletedAt'', Is (Ne VNull))]). sat d x"
    using m by (simp add: matches_def list_all_iff)
  ultimately have "sat d (''deletedAt'', Is (Ne VNull))" by blast
  then show "\<not> live d" by (auto simp: live_def)
qed

lemma matches_by_id_live: "matches (by_id i @ [(''deletedAt'', Is (Eq VNull))]) d \<Longrightarrow> live d"
  by (simp add: matches_def by_id_def live_def)

lemma set_sort_by: "set (sort_by kd ds) = set ds"
  by (cases kd) (simp add: sort_by_def)

lemma set_sort_docs: "set (sort_docs spec ds) = set ds"
  by (induction spec) (simp_all add: sort_docs_def set_sort_by)

lemma find_docs_subset:
  assumes "find_docs q opts ds = Inr xs"
  shows "set xs \<subseteq> {d \<in> set ds. matches q d}"
proof -
  have "set xs \<subseteq> set (sort_docs (opt_sort opts) (filter (matches q) ds))"
    using assms
    by (auto simp: find_docs_def window_def apply_limit_def split: option.splits if_splits
        dest: in_set_takeD in_set_dropD)
  then show ?thesis by (simp add: set_sort_docs subset_iff)
qed

lemma engine_cases:
  assumes "engine e f w = (r, w')"
  shows "(\<exists>m. fault w = Some m \<and> r = Inl (JsError m) \<and> docs w' = docs w)
       \<or> (fault w = None \<and> f (docs w) = (r, docs w'))"
  using assms by (cases "fault w") (auto simp: engine_def split: prod.splits)

lemma update_first_frame:
  "update_first P f ds = (r, ds') \<Longrightarrow> list_all2 (\<lambda>d d'. P d \<or> d' = d) ds ds'"
proof (induction ds arbitrary: r ds')
  case Nil
  then show ?case by simp
next
  case (Cons d ds)
  show ?case
  proof (cases "P d")
    case True
    then show ?thesis using Cons.prems by (auto simp: list_all2_same)
  next
    case False
    then show ?thesis using Cons by (auto split: prod.splits)
  qed
qed

lemma list_all2_weaken: "list_all2 P xs ys \<Longrightarrow> (\<And>x y. P x y \<Longrightarrow> Q x y) \<Longrightarrow> list_all2 Q xs ys"
  by (rule list_all2_mono)

lemma repo_findAll_live:
  assumes "repo_findAll q opts False w = (Inr ds, w')"
  shows "list_all live ds"
proof -
  from assms have "find_docs (not_deleted q) opts (docs w) = Inr ds"
    using engine_cases[of "OpFind (not_deleted q) opts" "\<lambda>ds. (find_docs (not_deleted q) opts ds, ds)" w "Inr ds" w']
    by (auto simp: repo_findAll_def model_find_def)
  then show ?thesis using find_docs_subset matches_not_deleted by (fastforce simp: list_all_iff)
qed

lemma repo_findOne_live:
  assumes "repo_findOne q False w = (Inr (Some d), w')"
  shows "live d"
proof -
  from assms have "find (matches (not_deleted q)) (docs w) = Some d"
    using engine_cases[of "OpFindOne (not_deleted q)" "\<lambda>ds. (Inr (find (matches (not_deleted q)) ds), ds)" w "Inr (Some d)" w']
    by (auto simp: repo_findOne_def model_findOne_def)
  then show ?thesis using matches_not_deleted by (auto simp: find_Some_iff)
qed

lemma repo_findById_live:
  assumes "repo_findById i False w = (Inr (Some d), w')"
  shows "live d"
proof -
  let ?q = "by_id i @ [(''deletedAt'', Is (Eq VNull))]"
  from assms have "find (matches ?q) (docs w) = Some d"
    using engine_cases[of "OpFindOne ?q" "\<lambda>ds. (Inr (find (matches ?q) ds), ds)" w "Inr (Some d)" w']
    by (auto simp: repo_findById_def model_findOne_def)
  then show ?thesis using matches_by_id_live by (auto simp: find_Some_iff)
qed

lemma repo_update_frame:
  assumes "repo_update q u False w = (r, w')"
  shows "list_all2 (\<lambda>d d'. live d \<or> d' = d) (docs w) (docs w')"
proof -
  let ?f = "\<lambda>ds. case update_first (matches (not_deleted q)) (apply_update u) ds of (r, ds') \<Rightarrow> (Inr r, ds')"
  have e: "engine (OpFindOneAndUpdate (not_deleted q) u) ?f w = (r, w')"
    using assms by (simp add: repo_update_def model_findOneAndUpdate_def)
  show ?thesis
    using engine_cases[OF e]
  proof
    assume "\<exists>m. fault w = Some m \<and> r = Inl (JsError m) \<and> docs w' = docs w"
    then show ?thesis by (auto simp: list_all2_same)
  next
    assume a: "fault w = None \<and> ?f (docs w) = (r, docs w')"
    obtain r0 where "update_first (matches (not_deleted q)) (apply_update u) (docs w) = (r0, docs w')"
      using a by (auto split: prod.splits)
    then have "list_all2 (\<lambda>d d'. matches (not_deleted q) d \<or> d' = d) (docs w) (docs w')"
      by (rule update_first_frame)
    then show ?thesis
      by (rule list_all2_mono) (auto dest: matches_not_deleted)
  qed
qed

lemma map_if_frame: "list_all2 (\<lambda>d d'. P d \<or> d' = d) ds (map (\<lambda>d. if P d then f d else d) ds)"
  by (induction ds) auto

lemma model_updateMany_frame:
  assumes "model_updateMany q u w = (r, w')"
  shows "list_all2 (\<lambda>d d'. matches q d \<or> d' = d) (docs w) (docs w')"
  using engine_cases[OF assms[unfolded model_updateMany_def]] map_if_frame[of "matches q" "docs w" "apply_update u"]
  by (auto simp: list_all2_same)

lemma repo_updateMany_frame:
  assumes "repo_updateMany q u w = (r, w')"
  shows "list_all2 (\<lambda>d d'. live d \<or> d' = d) (docs w) (docs w')"
  using model_updateMany_frame[OF assms[unfolded repo_updateMany_def]]
  by (rule list_all2_mono) (auto dest: matches_not_deleted)

lemma repo_restoreMany_frame:
  assumes "repo_restoreMany q w = (r, w')"
  shows "list_all2 (\<lambda>d d'. \<not> live d \<or> d' = d) (docs w) (docs w')"
  using model_updateMany_frame[OF assms[unfolded repo_restoreMany_def]]
  by (rule list_all2_mono) (auto dest: matches_only_deleted)

lemma repo_countDocuments_live:
  assumes "repo_countDocuments q no_options False w = (Inr n, w')"
  shows "n = length (filter (\<lambda>d. live d \<and> matches (not_deleted q) d) (docs w))"
proof -
  let ?f = "\<lambda>ds. (case window no_options (filter (matches (not_deleted q)) ds) of Inl e \<Rightarrow> Inl e | Inr xs \<Rightarrow> Inr (length xs), ds)"
  have e: "engine (OpCountDocuments (not_deleted q) no_options) ?f w = (Inr n, w')"
    using assms by (simp add: repo_countDocuments_def model_countDocuments_def)
  have "n = length (filter (matches (not_deleted q)) (docs w))"
    using engine_cases[OF e] by (auto simp: window_def no_options_def apply_limit_def)
  moreover have "filter (matches (not_deleted q)) (docs w) = filter (\<lambda>d. live d \<and> matches (not_deleted q) d) (docs w)"
    by (rule filter_cong) (auto dest: matches_not_deleted)
  ultimately show ?thesis by simp
qed

lemma repo_exists_live:
  assumes "repo_exists q False w = (Inr True, w')"
  shows "list_ex (\<lambda>d. live d \<and> matches (not_deleted q) d) (docs w)"
proof -
  obtain r w1 where e: "model_exists (not_deleted q) w = (r, w1)" by (cases "model_exists (not_deleted q) w")
  then obtain x where r: "r = Inr (Some x)"
    using assms by (cases r) (auto simp: repo_exists_def bind_def return_def)
  have "find (matches (not_deleted q)) (docs w) = Some x"
    using engine_cases[OF e[unfolded model_exists_def]] r by auto
  then have "matches (not_deleted q) x" "x \<in> set (docs w)" by (auto simp: find_Some_iff)
  then show ?thesis using matches_not_deleted by (auto simp: list_ex_iff)
qed

lemma repo_restore_none:
  assumes "list_all live (docs w)"
  shows "fst (repo_restore q w) \<noteq> Inr (Some d) \<and> docs (snd (repo_restore q w)) = docs w"
proof -
  let ?q = "spread q [(''deletedAt'', Is (Ne VNull))]"
  have nf: "find (matches ?q) (docs w) = None"
    using assms matches_only_deleted by (auto simp: find_None_iff list_all_iff)
  show ?thesis
  proof (cases "fault w")
    case None
    then show ?thesis using nf
      by (simp add: repo_restore_def repo_findOne_def model_findOne_def bind_def return_def engine_read_ok)
  next
    case (Some m)
    then show ?thesis
      by (simp add: repo_restore_def repo_findOne_def model_findOne_def bind_def return_def engine_fault)
  qed
qed

lemma update_first_fst: "fst (update_first P f ds) = map_option f (find P ds)"
  by (induction ds) (auto split: prod.splits)

lemma delete_first_fst: "fst (delete_first P ds) = find P ds"
  by (induction ds) (auto split: prod.splits)

lemma include_deleted_reads:
  assumes "fault w = None"
  shows "fst (repo_findAll q no_options True w) = Inr (filter (matches q) (docs w))"
    and "fst (repo_findOne q True w) = Inr (find (matches q) (docs w))"
    and "fst (repo_findById i True w) = Inr (find (matches (by_id i)) (docs w))"
    and "fst (repo_countDocuments q no_options True w) = Inr (length (filter (matches q) (docs w)))"
    and "fst (repo_exists q True w) = Inr (find (matches q) (docs w) \<noteq> None)"
    and "fst (repo_update q u True w) = Inr (map_option (apply_update u) (find (matches q) (docs w)))"
  using assms
  by (simp_all add: repo_findAll_def repo_findOne_def repo_findById_def repo_countDocuments_def
      repo_exists_def repo_update_def model_find_def model_findOne_def model_countDocuments_def
      model_exists_def model_findOneAndUpdate_def engine_read_ok engine_def find_docs_def window_def
      no_options_def apply_limit_def sort_docs_def bind_def return_def update_first_fst split_beta)

lemma delete_family:
  assumes "fault w = None"
  shows "fst (repo_delete q True w)
           = Inr (map_option (apply_update (set_deletedAt (now w))) (find (matches q) (docs w)))"
    and "fst (repo_delete q False w) = Inr (find (matches q) (docs w))"
    and "fst (repo_deleteById i True w)
           = Inr (map_option (apply_update (set_deletedAt (now w))) (find (matches (by_id i)) (docs w)))"
    and "fst (repo_deleteById i False w) = Inr (find (matches (by_id i)) (docs w))"
    and "docs (snd (repo_deleteMany q True w))
           = map (\<lambda>d. if matches q d then apply_update (set_deletedAt (now w)) d else d) (docs w)"
    and "docs (snd (repo_deleteMany q False w)) = filter (\<lambda>d. \<not> matches q d) (docs w)"
  using assms
  by (simp_all add: repo_delete_def repo_deleteById_def repo_deleteMany_def repo_update_def
      repo_updateById_def model_findOneAndUpdate_def model_findOneAndDelete_def model_updateMany_def
      model_deleteMany_def engine_def update_first_fst delete_first_fst split_beta)


lemma update_first_unique:
  "d \<in> set ds \<Longrightarrow> distinct ds \<Longrightarrow> (\<forall>x\<in>set ds. P x = (x = d))
     \<Longrightarrow> update_first P f ds = (Some (f d), map (\<lambda>x. if x = d then f d else x) ds)"
proof (induction ds)
  case Nil
  then show ?case by simp
next
  case (Cons x xs)
  show ?case
  proof (cases "x = d")
    case True
    then have "d \<notin> set xs" using Cons.prems(2) by simp
    then have "map (\<lambda>x. if x = d then f d else x) xs = xs" by (induction xs) auto
    then show ?thesis using True Cons.prems(3) by simp
  next
    case False
    then have "d \<in> set xs" "distinct xs" "\<forall>x\<in>set xs. P x = (x = d)" "\<not> P x"
      using Cons.prems by auto
    then show ?thesis using Cons.IH False by simp
  qed
qed

lemma by_own_id:
  assumes "distinct_ids ds" "d \<in> set ds" "x \<in> set ds"
  shows "matches [(''_id'', Is (Eq (case get d ''_id'' of Some v \<Rightarrow> v | None \<Rightarrow> VNull)))] x = (x = d)"
proof -
  have hd: "has_id d" and hx: "has_id x" using assms by (auto simp: distinct_ids_def list_all_iff)
  obtain v where v: "get d ''_id'' = Some v" "v \<noteq> VNull"
    using hd by (auto simp: has_id_def split: option.splits)
  have inj: "inj_on (\<lambda>d. get d ''_id'') (set ds)"
    using assms(1) by (simp add: distinct_ids_def distinct_map)
  have "matches [(''_id'', Is (Eq v))] x = (get x ''_id'' = get d ''_id'')"
    using v by (simp add: matches_def)
  also have "\<dots> = (x = d)" using inj assms(2,3) by (auto dest: inj_onD)
  finally show ?thesis using v by simp
qed

lemma distinct_ids_distinct: "distinct_ids ds \<Longrightarrow> distinct ds"
  by (simp add: distinct_ids_def distinct_map)

lemma repo_restore_hit:
  assumes nf: "fault w = None" and di: "distinct_ids (docs w)"
    and f: "find (matches (only_deleted q)) (docs w) = Some x"
  shows "\<not> live x \<and> fst (repo_restore q w) = Inr (Some (restored x))
       \<and> docs (snd (repo_restore q w)) = map (\<lambda>y. if y = x then restored x else y) (docs w)"
proof -
  let ?w1 = "issue (OpFindOne (only_deleted q)) w"
  let ?idq = "[(''_id'', Is (Eq (case get x ''_id'' of Some v \<Rightarrow> v | None \<Rightarrow> VNull)))]"
  let ?u = "\<lparr>upd_set = [], upd_unset = [''deletedAt'', ''deletedBy'']\<rparr>"
  have xin: "x \<in> set (docs w)" and mx: "matches (only_deleted q) x"
    using f by (auto simp: find_Some_iff)
  have nl: "\<not> live x" using mx matches_only_deleted by (simp add: only_deleted_def)
  have f1: "repo_findOne (only_deleted q) True w = (Inr (Some x), ?w1)"
    using nf f by (simp add: repo_findOne_def model_findOne_def engine_read_ok)
  have uf: "update_first (matches ?idq) (apply_update ?u) (docs w)
      = (Some (apply_update ?u x), map (\<lambda>y. if y = x then apply_update ?u x else y) (docs w))"
    by (rule update_first_unique[OF xin distinct_ids_distinct[OF di]]) (simp add: by_own_id[OF di xin])
  have "repo_restore q w = (Inr (Some (restored x)),
      (issue (OpFindOneAndUpdate ?idq ?u) ?w1)\<lparr>docs := map (\<lambda>y. if y = x then restored x else y) (docs w)\<rparr>)"
    using f1 uf nf
    by (simp add: repo_restore_def only_deleted_def[symmetric] bind_def repo_update_def
        model_findOneAndUpdate_def engine_def restored_def)
  then show ?thesis using nl by simp
qed

lemma repo_restore_miss:
  assumes nf: "fault w = None" and f: "find (matches (only_deleted q)) (docs w) = None"
  shows "fst (repo_restore q w) = Inr None \<and> docs (snd (repo_restore q w)) = docs w"
  using nf f
  by (simp add: repo_restore_def only_deleted_def[symmetric] repo_findOne_def model_findOne_def bind_def
      return_def engine_read_ok)

lemma repo_restore_frame:
  assumes di: "distinct_ids (docs w)" and r: "repo_restore q w = (ro, w')"
  shows "list_all2 (\<lambda>x x'. (\<not> live x \<and> matches (only_deleted q) x) \<or> x' = x) (docs w) (docs w')"
proof (cases "fault w")
  case (Some m)
  then have "docs w' = docs w" using r
    by (auto simp: repo_restore_def repo_findOne_def model_findOne_def bind_def engine_fault)
  then show ?thesis by (simp add: list_all2_same)
next
  case None
  show ?thesis
  proof (cases "find (matches (only_deleted q)) (docs w)")
    case n: None
    then show ?thesis using repo_restore_miss[OF None n] r by (simp add: list_all2_same)
  next
    case (Some x)
    have mx: "matches (only_deleted q) x" using Some by (auto simp: find_Some_iff)
    note h = repo_restore_hit[OF None di Some]
    have "docs w' = map (\<lambda>y. if y = x then restored x else y) (docs w)" using h r by simp
    moreover have "list_all2 (\<lambda>y y'. (\<not> live y \<and> matches (only_deleted q) y) \<or> y' = y) (docs w)
        (map (\<lambda>y. if y = x then restored x else y) (docs w))"
      using h mx by (simp add: list_all2_map2 list_all2_same)
    ultimately show ?thesis by simp
  qed
qed

text \<open>
  Claim C2, as the specification states it: called with the default arguments, every read,
  update and delete operation of the repository leaves out the records whose \<open>deletedAt\<close>
  is set. \<open>delete\<close> does not: with the default soft delete it matches a record that is
  already deleted and stamps it again, and a hard \<open>deleteMany\<close> removes it.
\<close>

theorem delete_matches_soft_deleted:
  "\<not> live removed
   \<and> fst (repo_delete [] True (collection [removed]))
       = Inr (Some [(''_id'', VId 1), (''deletedAt'', VDate 1000), (''deletedBy'', VStr ''u1'')])
   \<and> docs (snd (repo_delete [] True (collection [removed])))
       = [[(''_id'', VId 1), (''deletedAt'', VDate 1000), (''deletedBy'', VStr ''u1'')]]
   \<and> docs (snd (repo_deleteMany [] False (collection [removed]))) = []"
  by (simp add: repo_defs engine_defs example_defs live_def)

text \<open>
  Claim C2, amended. With \<open>includeDeleted\<close> left at its default, \<open>findAll\<close>, \<open>findOne\<close>,
  \<open>findById\<close>, \<open>countDocuments\<close> and \<open>exists\<close> return and count live records only, and
  \<open>update\<close> (and \<open>updateMany\<close>, always) leaves every soft-deleted record as it is. With
  \<open>includeDeleted = true\<close> these operations apply the caller's query to all records,
  soft-deleted ones included. \<open>restoreMany\<close> changes soft-deleted records only, and \<open>restore\<close>
  finds nothing in a collection of live records. \<open>delete\<close>, \<open>deleteById\<close> and \<open>deleteMany\<close>
  apply the caller's query with no condition on \<open>deletedAt\<close>: they reach soft-deleted
  records as well. In a collection whose records carry distinct ids, \<open>restore\<close> changes
  soft-deleted records matching the query only: it restores the first of them and leaves
  every other record as it is, and it returns null and changes nothing when there is none.
\<close>

theorem soft_delete_visibility:
  "(repo_findAll q opts False w = (Inr ds, w') \<longrightarrow> list_all live ds)
   \<and> (repo_findOne q False w = (Inr (Some d), w') \<longrightarrow> live d)
   \<and> (repo_findById i False w = (Inr (Some d), w') \<longrightarrow> live d)
   \<and> (repo_update q u False w = (r, w') \<longrightarrow> list_all2 (\<lambda>d d'. live d \<or> d' = d) (docs w) (docs w'))
   \<and> (repo_updateMany q u w = (rn, w') \<longrightarrow> list_all2 (\<lambda>d d'. live d \<or> d' = d) (docs w) (docs w'))
   \<and> (repo_countDocuments q no_options False w = (Inr n, w') \<longrightarrow>
         n = length (filter (\<lambda>d. live d \<and> matches (not_deleted q) d) (docs w)))
   \<and> (repo_exists q False w = (Inr True, w') \<longrightarrow>
         list_ex (\<lambda>d. live d \<and> matches (not_deleted q) d) (docs w))
   \<and> (fault w = None \<longrightarrow>
         fst (repo_findAll q no_options True w) = Inr (filter (matches q) (docs w))
         \<and> fst (repo_findOne q True w) = Inr (find (matches q) (docs w))
         \<and> fst (repo_findById i True w) = Inr (find (matches (by_id i)) (docs w))
         \<and> fst (repo_countDocuments q no_options True w) = Inr (length (filter (matches q) (docs w)))
         \<and> fst (repo_exists q True w) = Inr (find (matches q) (docs w) \<noteq> None)
         \<and> fst (repo_update q u True w) = Inr (map_option (apply_update u) (find (matches q) (docs w))))
   \<and> (repo_restoreMany q w = (rn, w') \<longrightarrow> list_all2 (\<lambda>d d'. \<not> live d \<or> d' = d) (docs w) (docs w'))
   \<and> (list_all live (docs w) \<longrightarrow>
         fst (repo_restore q w) \<noteq> Inr (Some d) \<and> docs (snd (repo_restore q w)) = docs w)
   \<and> (fault w = None \<longrightarrow>
         fst (repo_delete q True w)
           = Inr (map_option (apply_update (set_deletedAt (now w))) (find (matches q) (docs w)))
         \<and> fst (repo_delete q False w) = Inr (find (matches q) (docs w))
         \<and> fst (repo_deleteById i True w)
           = Inr (map_option (apply_update (set_deletedAt (now w))) (find (matches (by_id i)) (docs w)))
         \<and> fst (repo_deleteById i False w) = Inr (find (matches (by_id i)) (docs w))
         \<and> docs (snd (repo_deleteMany q True w))
           = map (\<lambda>d. if matches q d then apply_update (set_deletedAt (now w)) d else d) (docs w)
         \<and> docs (snd (repo_deleteMany q False w)) = filter (\<lambda>d. \<not> matches q d) (docs w))
   \<and> (distinct_ids (docs w) \<and> repo_restore q w = (ro, w') \<longrightarrow>
         list_all2 (\<lambda>y y'. (\<not> live y \<and> matches (only_deleted q) y) \<or> y' = y) (docs w) (docs w'))
   \<and> (fault w = None \<and> distinct_ids (docs w) \<and> find (matches (only_deleted q)) (docs w) = Some x \<longrightarrow>
         \<not> live x \<and> fst (repo_restore q w) = Inr (Some (restored x))
         \<and> docs (snd (repo_restore q w)) = map (\<lambda>y. if y = x then restored x else y) (docs w))
   \<and> (fault w = None \<and> find (matches (only_deleted q)) (docs w) = None \<longrightarrow>
         fst (repo_restore q w) = Inr None \<and> docs (snd (repo_restore q w)) = docs w)"
  apply (intro conjI impI)
  apply (erule repo_findAll_live)
  apply (erule repo_findOne_live)
  apply (erule repo_findById_live)
  apply (erule repo_update_frame)
  apply (erule repo_updateMany_frame)
  apply (erule repo_countDocuments_live)
  apply (erule repo_exists_live)
  prefer 7
  apply (erule repo_restoreMany_frame)
  prefer 15
  apply (elim conjE, erule (1) repo_restore_frame)
  prefer 15
  apply (elim conjE, drule (2) repo_restore_hit, elim conjE, assumption)
  prefer 15
  apply (elim conjE, drule (2) repo_restore_hit, elim conjE, assumption)
  prefer 15
  apply (elim conjE, drule (2) repo_restore_hit, elim conjE, assumption)
  prefer 15
  apply (elim conjE, drule (1) repo_restore_miss, elim conjE, assumption)
  prefer 15
  apply (elim conjE, drule (1) repo_restore_miss, elim conjE, assumption)
  apply (simp_all add: include_deleted_reads delete_family repo_restore_none)
  done


theorem soft_delete_visibility_witness:
  "fst (repo_findAll [] no_options False (collection [removed, beta])) = Inr [beta]
   \<and> list_all live [beta] \<and> \<not> live removed
   \<and> fst (repo_findOne [] False (collection [removed, beta])) = Inr (Some beta)
   \<and> fst (repo_findById 1 False (collection [removed, beta])) = Inr None
   \<and> list_all2 (\<lambda>d d'. live d \<or> d' = d) [removed, beta]
        (docs (snd (repo_update [] \<lparr>upd_set = [(''name'', VStr ''X'')], upd_unset = []\<rparr> False (collection [removed, beta]))))
   \<and> list_all2 (\<lambda>d d'. live d \<or> d' = d) [removed, beta]
        (docs (snd (repo_updateMany [] \<lparr>upd_set = [(''name'', VStr ''X'')], upd_unset = []\<rparr> (collection [removed, beta]))))
   \<and> fst (repo_countDocuments [] no_options False (collection [removed, beta])) = Inr 1
   \<and> fst (repo_exists [(''_id'', Is (Eq (VId 2)))] False (collection [removed, beta])) = Inr True
   \<and> fst (repo_findAll [] no_options True (collection [removed, beta])) = Inr [removed, beta]
   \<and> fst (repo_findById 1 True (collection [removed, beta])) = Inr (Some removed)
   \<and> list_all2 (\<lambda>d d'. \<not> live d \<or> d' = d) [removed, beta]
        (docs (snd (repo_restoreMany [] (collection [removed, beta]))))
   \<and> fst (repo_restore [] (collection [beta])) \<noteq> Inr (Some beta)
   \<and> fst (repo_delete [] True (collection [removed, beta]))
        = Inr (Some (apply_update (set_deletedAt 1000) removed))
   \<and> docs (snd (repo_deleteMany [] False (collection [removed, beta]))) = []
   \<and> fst (repo_restore [] (collection [removed, beta])) = Inr (Some [(''_id'', VId 1)])
   \<and> docs (snd (repo_restore [] (collection [removed, beta]))) = [[(''_id'', VId 1)], beta]
   \<and> list_all2 (\<lambda>y y'. (\<not> live y \<and> matches (only_deleted []) y) \<or> y' = y) [removed, beta]
        (docs (snd (repo_restore [] (collection [removed, beta]))))
   \<and> fst (repo_restore [] (collection [beta])) = Inr None"
proof -
  let ?W = "collection [removed, beta]"
  let ?u = "\<lparr>upd_set = [(''name'', VStr ''X'')], upd_unset = []\<rparr>"
  have f: "fault ?W = None" and dw: "docs ?W = [removed, beta]" and nw: "now ?W = 1000"
    by (simp_all add: collection_def now_def)
  have l: "list_all live (docs (collection [beta]))" "\<not> live removed"
    by (simp_all add: live_def get_def example_defs)
  have m: "filter (matches []) [removed, beta] = [removed, beta]"
    "find (matches []) [removed, beta] = Some removed"
    "find (matches (by_id 1)) [removed, beta] = Some removed"
    "filter (\<lambda>d. live d \<and> matches (not_deleted []) d) [removed, beta] = [beta]"
    by (simp_all add: matches_def by_id_def get_def live_def not_deleted_def spread_def example_defs)
  have f1: "fst (repo_findAll [] no_options False ?W) = Inr [beta]"
    and f2: "fst (repo_findOne [] False ?W) = Inr (Some beta)"
    and e3: "fst (repo_findById 1 False ?W) = Inr None"
    and f6: "fst (repo_countDocuments [] no_options False ?W) = Inr 1"
    and f7: "fst (repo_exists [(''_id'', Is (Eq (VId 2)))] False ?W) = Inr True"
    by (simp_all add: repo_defs engine_defs no_options_def example_defs)
  have e1: "repo_findAll [] no_options False ?W = (Inr [beta], snd (repo_findAll [] no_options False ?W))"
    and e2: "repo_findOne [] False ?W = (Inr (Some beta), snd (repo_findOne [] False ?W))"
    and e6: "repo_countDocuments [] no_options False ?W = (Inr 1, snd (repo_countDocuments [] no_options False ?W))"
    and e7: "repo_exists [(''_id'', Is (Eq (VId 2)))] False ?W
               = (Inr True, snd (repo_exists [(''_id'', Is (Eq (VId 2)))] False ?W))"
    by (simp_all only: prod_eq_iff f1 f2 f6 f7 fst_conv snd_conv simp_thms)
  note T = soft_delete_visibility[where w="?W" and q="[]" and i=1 and u="?u"]
  have a1: "list_all live [beta]"
    using T[where opts=no_options and ds="[beta]" and w'="snd (repo_findAll [] no_options False ?W)",
        THEN conjunct1, rule_format, OF e1] .
  have a4: "list_all2 (\<lambda>d d'. live d \<or> d' = d) [removed, beta] (docs (snd (repo_update [] ?u False ?W)))"
    using T[where r="fst (repo_update [] ?u False ?W)" and w'="snd (repo_update [] ?u False ?W)",
        THEN conjunct2, THEN conjunct2, THEN conjunct2, THEN conjunct1] dw by simp
  have a5: "list_all2 (\<lambda>d d'. live d \<or> d' = d) [removed, beta] (docs (snd (repo_updateMany [] ?u ?W)))"
    using T[where rn="fst (repo_updateMany [] ?u ?W)" and w'="snd (repo_updateMany [] ?u ?W)",
        THEN conjunct2, THEN conjunct2, THEN conjunct2, THEN conjunct2, THEN conjunct1] dw by simp
  note R = T[THEN conjunct2, THEN conjunct2, THEN conjunct2, THEN conjunct2, THEN conjunct2,
        THEN conjunct2, THEN conjunct2]
  have a8: "fst (repo_findAll [] no_options True ?W) = Inr [removed, beta]"
    "fst (repo_findById 1 True ?W) = Inr (Some removed)"
    using R[THEN conjunct1, rule_format, OF f]
    by (simp_all add: collection_def matches_def by_id_def get_def removed_def beta_def)
  have a9: "list_all2 (\<lambda>d d'. \<not> live d \<or> d' = d) [removed, beta] (docs (snd (repo_restoreMany [] ?W)))"
    using T[where rn="fst (repo_restoreMany [] ?W)" and w'="snd (repo_restoreMany [] ?W)",
        THEN conjunct2, THEN conjunct2, THEN conjunct2, THEN conjunct2, THEN conjunct2,
        THEN conjunct2, THEN conjunct2, THEN conjunct2, THEN conjunct1] dw by simp
  have a10: "fst (repo_restore [] (collection [beta])) \<noteq> Inr (Some beta)"
    using soft_delete_visibility[where w="collection [beta]" and q="[]" and d=beta,
        THEN conjunct2, THEN conjunct2, THEN conjunct2, THEN conjunct2, THEN conjunct2,
        THEN conjunct2, THEN conjunct2, THEN conjunct2, THEN conjunct2, THEN conjunct1, rule_format, OF l(1)]
    by simp
  have a11: "fst (repo_delete [] True ?W) = Inr (Some (apply_update (set_deletedAt 1000) removed))"
    "docs (snd (repo_deleteMany [] False ?W)) = []"
    using R[THEN conjunct2, THEN conjunct2, THEN conjunct2, THEN conjunct1, rule_format, OF f]
    by (simp_all add: collection_def now_def matches_def by_id_def get_def removed_def beta_def)
  have di: "distinct_ids (docs ?W)"
    by (simp add: distinct_ids_def has_id_def get_def collection_def removed_def beta_def)
  have fr: "find (matches (only_deleted [])) (docs ?W) = Some removed"
    and fn: "find (matches (only_deleted [])) (docs (collection [beta])) = None"
    by (simp_all add: only_deleted_def spread_def matches_def get_def collection_def removed_def beta_def)
  have rs: "restored removed = [(''_id'', VId 1)]"
    by (simp add: restored_def apply_update_def spread_def removed_def)
  have ne: "beta \<noteq> removed" by (simp add: beta_def removed_def)
  have b0: "fst (repo_restore [] ?W) = Inr (Some (restored removed))"
    "docs (snd (repo_restore [] ?W)) = map (\<lambda>y. if y = removed then restored removed else y) (docs ?W)"
    using soft_delete_visibility[where w="?W" and q="[]" and x=removed,
        THEN conjunct2, THEN conjunct2, THEN conjunct2, THEN conjunct2, THEN conjunct2, THEN conjunct2, THEN conjunct2, THEN conjunct2, THEN conjunct2, THEN conjunct2, THEN conjunct2, THEN conjunct2, THEN conjunct1, rule_format, OF conjI[OF f conjI[OF di fr]]]
    by (rule conjunct1[OF conjunct2], rule conjunct2[OF conjunct2])
  have b1: "fst (repo_restore [] ?W) = Inr (Some [(''_id'', VId 1)])"
    "docs (snd (repo_restore [] ?W)) = [[(''_id'', VId 1)], beta]"
    using b0 by (simp_all add: rs dw ne)
  have b2: "list_all2 (\<lambda>y y'. (\<not> live y \<and> matches (only_deleted []) y) \<or> y' = y) [removed, beta]
        (docs (snd (repo_restore [] ?W)))"
    using soft_delete_visibility[where w="?W" and q="[]" and ro="fst (repo_restore [] ?W)"
        and w'="snd (repo_restore [] ?W)", THEN conjunct2, THEN conjunct2, THEN conjunct2, THEN conjunct2, THEN conjunct2, THEN conjunct2, THEN conjunct2, THEN conjunct2, THEN conjunct2, THEN conjunct2, THEN conjunct2, THEN conjunct1] di dw
    by simp
  have b3: "fst (repo_restore [] (collection [beta])) = Inr None"
    using soft_delete_visibility[where w="collection [beta]" and q="[]",
        THEN conjunct2, THEN conjunct2, THEN conjunct2, THEN conjunct2, THEN conjunct2,
        THEN conjunct2, THEN conjunct2, THEN conjunct2, THEN conjunct2, THEN conjunct2,
        THEN conjunct2, THEN conjunct2, THEN conjunct2, rule_format] fn
    by (simp add: collection_def)
  show ?thesis
    using f1 f2 e3 f6 f7 a1 a4 a5 a8 a9 a10 a11 l(2) b1 b2 b3 by simp
qed

section \<open>Unique fields\<close>





























end
